theory Spec2Isabelle
  imports
    Complex_Main
    "HOL-Library.Char_ord"
    "HOL-Library.List_Lexorder"
    "HOL-Library.Sorting_Algorithms"
begin

section \<open>Data model of \<open>index.tsx\<close>\<close>

text \<open>
  A JavaScript \<open>number\<close> that is not \<open>NaN\<close> is a real here; where the source tests
  \<open>isNaN\<close> the value is a \<open>number option\<close> and \<open>None\<close> is \<open>NaN\<close>. Strings are byte
  lists (UTF-8), compared as JavaScript compares them on ASCII text: lexicographically,
  a proper prefix first. Optional properties (\<open>isRecurring?\<close>, \<open>recurringId?\<close>) are
  options, \<open>None\<close> being \<open>undefined\<close>.

  \<open>IncomeSource\<close>, \<open>Expense\<close> and \<open>RealExpense\<close> share the properties \<open>id\<close>,
  \<open>description\<close> and \<open>amount\<close>; they are the record \<open>Entry\<close>, which the three types
  extend. The property \<open>id\<close> is the field \<open>id'\<close>.
\<close>

type_synonym number = real

record Entry =
  id' :: number
  description :: string
  amount :: number

record IncomeSource = Entry +
  isRecurring :: "bool option"
  recurringId :: "number option"

record Expense = IncomeSource +
  category :: string

record RealExpense = Entry +
  date :: string
  linkedCategory :: string

record Category =
  name :: string
  color :: string

datatype TransactionType = expense | income

datatype EditingRecurringTransaction = EditingExpense Expense | EditingIncome IncomeSource

fun editingType :: "EditingRecurringTransaction \<Rightarrow> TransactionType" where
  "editingType (EditingExpense e) = expense"
| "editingType (EditingIncome i) = income"

fun editingId :: "EditingRecurringTransaction \<Rightarrow> number" where
  "editingId (EditingExpense e) = id' e"
| "editingId (EditingIncome i) = id' i"

text \<open>
  A ledger as it is persisted. The migration reads a month \<open>as any\<close>: each of its lists
  may be missing, an older version wrote \<open>expenses\<close>, and the object may hold properties
  the program does not know (\<open>otherFields\<close>, their values of any type \<open>'j\<close>). A list that
  is present is an array, which JavaScript takes for true.
\<close>

record 'j StoredMonth =
  realIncome :: "IncomeSource list option"
  expenses :: "Expense list option"
  plannedExpenses :: "Expense list option"
  realExpenses :: "RealExpense list option"
  otherFields :: "(string \<times> 'j) list"

text \<open>The declared type \<open>MonthlyData\<close>, which every handler assumes.\<close>

record MonthlyData =
  realIncome :: "IncomeSource list"
  plannedExpenses :: "Expense list"
  realExpenses :: "RealExpense list"

definition stored :: "MonthlyData \<Rightarrow> 'j StoredMonth" where
  "stored m =
     \<lparr>StoredMonth.realIncome = Some (realIncome m), expenses = None,
      StoredMonth.plannedExpenses = Some (plannedExpenses m),
      StoredMonth.realExpenses = Some (realExpenses m), otherFields = []\<rparr>"

text \<open>
  \<open>globalState\<close>, the part of \<open>uiState\<close> that the handlers below read or write,
  \<open>monthlyData\<close> and \<open>isInitialized\<close>, in one record: the state in memory. The
  browser's \<open>localStorage\<close> is a map from keys to texts beside it. \<open>initializeState\<close>
  reads it; \<open>saveDataToLocalStorage\<close>, which the handlers call after they have changed
  the state, overwrites it with the whole state and does not change the state in memory,
  and neither does the rendering: both are left out of the handlers below.
  \<open>monthlyData\<close> is an object used as a dictionary: an association list in insertion
  order, which is the order of \<open>Object.keys\<close>; \<open>map_of\<close> is the lookup
  \<open>monthlyData[key]\<close>. The ledgers are \<open>'m\<close>: as persisted while the state is loaded,
  \<open>MonthlyData\<close> afterwards.
\<close>

record 'm AppState =
  isInitialized :: bool
  categories :: "Category list"
  recurringIncomes :: "IncomeSource list"
  recurringExpenses :: "Expense list"
  monthlyData :: "(string \<times> 'm) list"
  selectedMonth :: string
  editingRecurringTransaction :: "EditingRecurringTransaction option"
  recurringModalType :: TransactionType

text \<open>
  What the program takes from the JavaScript runtime: \<open>String.prototype.trim\<close>,
  \<open>toLowerCase\<close> and \<open>localeCompare\<close> (a comparator, as \<open>Array.prototype.sort\<close>
  requires of its argument), and \<open>JSON.parse\<close> followed by the cast to the type the
  caller declares. \<open>JSON.parse\<close> throws, or returns a value that \<open>!\<close> and \<open>||\<close> take
  for false (\<open>null\<close>, \<open>false\<close>, \<open>0\<close>, the empty string), or returns a value of the
  declared type, an array or an object.
\<close>

datatype 'a parsed = Throws | Falsy | Parsed 'a

record Runtime =
  trim :: "string \<Rightarrow> string"
  toLowerCase :: "string \<Rightarrow> string"
  localeCompare :: "string comparator"

record 'j JsonParse =
  parseIncomes :: "string \<Rightarrow> IncomeSource list parsed"
  parseExpenses :: "string \<Rightarrow> Expense list parsed"
  parseCategories :: "string \<Rightarrow> Category list parsed"
  parseMonthlyData :: "string \<Rightarrow> (string \<times> 'j StoredMonth) list parsed"

text \<open>
  The messages of \<open>alert\<close>. \<open>handleDeleteCategory\<close> joins the usage classes that
  matched into its message, in the order in which \<open>usageInfo\<close> is filled.
\<close>

datatype usage =
  PlannedUsage    \<comment> \<open>"d\'epenses planifi\'ees"\<close>
| RealUsage       \<comment> \<open>"d\'epenses r\'eelles"\<close>
| RecurringUsage  \<comment> \<open>"d\'epenses r\'ecurrentes"\<close>

datatype alert =
  CategoryNameInvalidOrExists   \<comment> \<open>"Ce nom de cat\'egorie est invalide ou existe d\'ej\`a."\<close>
| CategoryInUse string "usage list"  \<comment> \<open>"Impossible de supprimer ... car elle est utilis\'ee dans des ..."\<close>

section \<open>Arrays\<close>

text \<open>\<open>Array.prototype.findIndex\<close>; \<open>None\<close> is \<open>-1\<close>.\<close>

fun findIndex :: "('a \<Rightarrow> bool) \<Rightarrow> 'a list \<Rightarrow> nat option" where
  "findIndex P [] = None"
| "findIndex P (x # xs) = (if P x then Some 0 else map_option Suc (findIndex P xs))"

text \<open>
  \<open>const index = xs.findIndex(P); if (index !== -1) xs[index] = f(xs[index])\<close>, and
  likewise \<open>Object.assign(xs[index], ...)\<close> and \<open>xs.find(P)\<close> followed by an
  assignment to a property of the element found.
\<close>

definition updateAtFound :: "('a \<Rightarrow> bool) \<Rightarrow> ('a \<Rightarrow> 'a) \<Rightarrow> 'a list \<Rightarrow> 'a list" where
  "updateAtFound P f xs =
     (case findIndex P xs of None \<Rightarrow> xs | Some index \<Rightarrow> xs[index := f (xs ! index)])"

section \<open>Local storage and state initialization\<close>

text \<open>
  \<open>sortCategories\<close>: \<open>Array.prototype.sort\<close> with the comparator
  \<open>a.name.localeCompare(b.name)\<close>, a stable sort, as the sort of the library is.
\<close>

definition sortCategories :: "Runtime \<Rightarrow> Category list \<Rightarrow> Category list" where
  "sortCategories rt cs = Sorting_Algorithms.sort (key name (localeCompare rt)) cs"

text \<open>
  \<open>createMonthDataFromRecurring\<close>. \<open>newId k\<close> is the \<open>k\<close>-th value of
  \<open>Date.now() + Math.random()\<close> that the call draws.
\<close>

definition createMonthDataFromRecurring :: "(nat \<Rightarrow> number) \<Rightarrow> 'm AppState \<Rightarrow> MonthlyData" where
  "createMonthDataFromRecurring newId s =
     \<lparr>realIncome =
        map (\<lambda>(k, i). i\<lparr>id' := newId k, isRecurring := Some True, recurringId := Some (id' i)\<rparr>)
          (enumerate 0 (recurringIncomes s)),
      plannedExpenses =
        map (\<lambda>(k, e). e\<lparr>id' := newId k, isRecurring := Some True, recurringId := Some (id' e)\<rparr>)
          (enumerate (length (recurringIncomes s)) (recurringExpenses s)),
      realExpenses = []\<rparr>"

text \<open>
  \<open>loadFromStorage\<close>: the value returned and the storage. \<open>None\<close> is \<open>null\<close> or
  another value that \<open>||\<close> takes for false: every caller writes
  \<open>loadFromStorage(...) || d\<close>. The key is removed only when \<open>JSON.parse\<close> throws; a
  text that parses to such a value stays in the storage.
\<close>

definition loadFromStorage ::
  "(string \<Rightarrow> 'a parsed) \<Rightarrow> (string \<rightharpoonup> string) \<Rightarrow> string \<Rightarrow> 'a option \<times> (string \<rightharpoonup> string)" where
  "loadFromStorage parse st key' =
     (case st key' of
        None \<Rightarrow> (None, st)
      | Some savedData \<Rightarrow>
          if savedData = [] then (None, st)
          else (case parse savedData of
                  Parsed v \<Rightarrow> (Some v, st)
                | Falsy \<Rightarrow> (None, st)
                | Throws \<Rightarrow> (None, st(key' := None))))"

definition defaultCategories :: "Category list" where
  "defaultCategories =
     [\<lparr>name = ''Animaux'', color = ''#10b981''\<rparr>,
      \<lparr>name = ''Assurance'', color = ''#06b6d4''\<rparr>,
      \<lparr>name = ''Cadeaux et association caritative'', color = ''#8b5cf6''\<rparr>,
      \<lparr>name = ''Enfants'', color = ''#d946ef''\<rparr>,
      \<lparr>name = CHR 0xC3 # CHR 0x89 # ''pargne ou investissements'', color = ''#f97316''\<rparr>,
      \<lparr>name = ''Logement'', color = ''#ef4444''\<rparr>,
      \<lparr>name = ''Loisirs'', color = ''#ec4899''\<rparr>,
      \<lparr>name = ''Pr'' @ CHR 0xC3 # CHR 0xAA # ''ts'', color = ''#84cc16''\<rparr>,
      \<lparr>name = ''Repas'', color = ''#eab308''\<rparr>,
      \<lparr>name = ''Soins personnels'', color = ''#6366f1''\<rparr>,
      \<lparr>name = ''Taxes'', color = ''#78716c''\<rparr>,
      \<lparr>name = ''Transport'', color = ''#64748b''\<rparr>]"

text \<open>The body of the migration loop of \<open>initializeState\<close>, for one month.\<close>

definition migrateMonth :: "('j, 'x) StoredMonth_scheme \<Rightarrow> ('j, 'x) StoredMonth_scheme" where
  "migrateMonth month =
     (let month1 =
        (if expenses month \<noteq> None \<and> StoredMonth.plannedExpenses month = None
         then month\<lparr>StoredMonth.plannedExpenses := expenses month, expenses := None\<rparr>
         else month)
      in if StoredMonth.realExpenses month1 = None
         then month1\<lparr>StoredMonth.realExpenses := Some []\<rparr>
         else month1)"

text \<open>\<open>Object.keys(monthlyData).forEach(...)\<close> with that body.\<close>

definition migrateAll ::
  "(string \<times> ('j, 'x) StoredMonth_scheme) list \<Rightarrow> (string \<times> ('j, 'x) StoredMonth_scheme) list" where
  "migrateAll md = map (\<lambda>(key', month). (key', migrateMonth month)) md"

text \<open>
  \<open>initializeState\<close>. In \<open>loadFromStorage(...) || d\<close> a value of the declared type, an
  array or an object, is taken for true: the default \<open>d\<close> is taken exactly when
  \<open>loadFromStorage\<close> returns \<open>None\<close>. The month created for \<open>uiState.selectedMonth\<close> is
  stored with all its three lists.
\<close>

definition initializeState ::
  "Runtime \<Rightarrow> 'j JsonParse \<Rightarrow> (nat \<Rightarrow> number) \<Rightarrow> (string \<rightharpoonup> string)
     \<Rightarrow> 'j StoredMonth AppState \<Rightarrow> 'j StoredMonth AppState \<times> (string \<rightharpoonup> string)" where
  "initializeState rt js newId st s =
     (if isInitialized s then (s, st)
      else
        let (incomes, st1) = loadFromStorage (parseIncomes js) st ''recurringIncomes'';
            (exps, st2) = loadFromStorage (parseExpenses js) st1 ''recurringExpenses'';
            (cats, st3) = loadFromStorage (parseCategories js) st2 ''categories'';
            s1 = s\<lparr>recurringIncomes := (case incomes of None \<Rightarrow> [] | Some v \<Rightarrow> v),
                   recurringExpenses := (case exps of None \<Rightarrow> [] | Some v \<Rightarrow> v),
                   categories :=
                     sortCategories rt (case cats of None \<Rightarrow> defaultCategories | Some v \<Rightarrow> v)\<rparr>;
            (loaded, st4) = loadFromStorage (parseMonthlyData js) st3 ''monthlyData'';
            md = migrateAll (case loaded of None \<Rightarrow> [] | Some v \<Rightarrow> v);
            md1 = (if map_of md (selectedMonth s) = None
                   then md @ [(selectedMonth s, stored (createMonthDataFromRecurring newId s1))]
                   else md)
        in (s1\<lparr>monthlyData := md1, isInitialized := True\<rparr>, st4))"

section \<open>Event handlers\<close>

text \<open>
  The month buttons of \<open>attachGlobalEventListeners\<close>, from the point where
  \<open>newMonthKey\<close> has been computed by the \<open>Date\<close> arithmetic.
\<close>

definition handleMonthNavigation ::
  "string \<Rightarrow> (nat \<Rightarrow> number) \<Rightarrow> MonthlyData AppState \<Rightarrow> MonthlyData AppState" where
  "handleMonthNavigation newMonthKey newId s =
     (let md = (if map_of (monthlyData s) newMonthKey = None
                then monthlyData s @ [(newMonthKey, createMonthDataFromRecurring newId s)]
                else monthlyData s)
      in s\<lparr>monthlyData := md, selectedMonth := newMonthKey\<rparr>)"

text \<open>
  What \<open>handleRecurringFormSubmit\<close> reads from the form: the description, the amount
  after \<open>parseFloat\<close> and the selected category.
\<close>

record RecurringForm =
  formDescription :: string
  formAmount :: "number option"
  formCategory :: string

text \<open>
  The branch \<open>UPDATE LOGIC\<close> of \<open>handleRecurringFormSubmit\<close>, with \<open>id\<close> and \<open>type\<close>
  taken from \<open>uiState.editingRecurringTransaction\<close>.
\<close>

definition updateLogic ::
  "TransactionType \<Rightarrow> number \<Rightarrow> string \<Rightarrow> number \<Rightarrow> string \<Rightarrow> MonthlyData AppState
     \<Rightarrow> MonthlyData AppState" where
  "updateLogic type ident descr amt cat s =
     (let currentMonthKey = selectedMonth s;
          s1 = (if type = income
                then s\<lparr>recurringIncomes :=
                         updateAtFound (\<lambda>i. id' i = ident)
                           (\<lambda>i. i\<lparr>description := descr, amount := amt\<rparr>) (recurringIncomes s)\<rparr>
                else s\<lparr>recurringExpenses :=
                         updateAtFound (\<lambda>exp. id' exp = ident)
                           (\<lambda>exp. exp\<lparr>description := descr, amount := amt, category := cat\<rparr>)
                           (recurringExpenses s)\<rparr>)
      in s1\<lparr>monthlyData :=
              map (\<lambda>(monthKey, m).
                     (monthKey,
                      if currentMonthKey \<le> monthKey then
                        (if type = income
                         then m\<lparr>realIncome :=
                                  updateAtFound (\<lambda>i. recurringId i = Some ident)
                                    (\<lambda>i. i\<lparr>description := descr, amount := amt\<rparr>) (realIncome m)\<rparr>
                         else m\<lparr>plannedExpenses :=
                                  updateAtFound (\<lambda>exp. recurringId exp = Some ident)
                                    (\<lambda>exp. exp\<lparr>description := descr, amount := amt, category := cat\<rparr>)
                                    (plannedExpenses m)\<rparr>)
                      else m))
                (monthlyData s1)\<rparr>)"

text \<open>
  The branch \<open>ADD LOGIC\<close>. \<open>now\<close> is the \<open>Date.now()\<close> that becomes the template's id,
  \<open>newId monthKey\<close> the \<open>Date.now() + Math.random()\<close> drawn while the loop visits
  \<open>monthKey\<close>.
\<close>

definition addLogic ::
  "TransactionType \<Rightarrow> number \<Rightarrow> (string \<Rightarrow> number) \<Rightarrow> string \<Rightarrow> number \<Rightarrow> string
     \<Rightarrow> MonthlyData AppState \<Rightarrow> MonthlyData AppState" where
  "addLogic type now newId descr amt cat s =
     (let currentMonthKey = selectedMonth s in
      if type = income then
        (let newRecurring =
               \<lparr>id' = now, description = descr, amount = amt, isRecurring = None, recurringId = None\<rparr>
         in s\<lparr>recurringIncomes := recurringIncomes s @ [newRecurring],
              monthlyData :=
                map (\<lambda>(monthKey, m).
                       (monthKey,
                        if currentMonthKey \<le> monthKey
                        then m\<lparr>realIncome := realIncome m @
                                 [newRecurring\<lparr>id' := newId monthKey, isRecurring := Some True,
                                    recurringId := Some (id' newRecurring)\<rparr>]\<rparr>
                        else m))
                  (monthlyData s)\<rparr>)
      else
        (let newRecurring =
               \<lparr>id' = now, description = descr, amount = amt, isRecurring = None, recurringId = None,
                category = cat\<rparr>
         in s\<lparr>recurringExpenses := recurringExpenses s @ [newRecurring],
              monthlyData :=
                map (\<lambda>(monthKey, m).
                       (monthKey,
                        if currentMonthKey \<le> monthKey
                        then m\<lparr>plannedExpenses := plannedExpenses m @
                                 [newRecurring\<lparr>id' := newId monthKey, isRecurring := Some True,
                                    recurringId := Some (id' newRecurring)\<rparr>]\<rparr>
                        else m))
                  (monthlyData s)\<rparr>))"

definition handleRecurringFormSubmit ::
  "number \<Rightarrow> (string \<Rightarrow> number) \<Rightarrow> RecurringForm \<Rightarrow> MonthlyData AppState \<Rightarrow> MonthlyData AppState" where
  "handleRecurringFormSubmit now newId form s =
     (case formAmount form of
        None \<Rightarrow> s
      | Some amt \<Rightarrow>
          if formDescription form = [] then s
          else
            (case editingRecurringTransaction s of
               Some editing \<Rightarrow>
                 updateLogic (editingType editing) (editingId editing)
                   (formDescription form) amt (formCategory form) s
             | None \<Rightarrow>
                 addLogic (recurringModalType s) now newId
                   (formDescription form) amt (formCategory form) s)
            \<lparr>editingRecurringTransaction := None\<rparr>)"

definition handleDeleteRecurring ::
  "number \<Rightarrow> TransactionType \<Rightarrow> MonthlyData AppState \<Rightarrow> MonthlyData AppState" where
  "handleDeleteRecurring ident type s =
     (let currentMonthKey = selectedMonth s;
          s1 = s\<lparr>monthlyData :=
                   map (\<lambda>(monthKey, m).
                          (monthKey,
                           if currentMonthKey \<le> monthKey then
                             (if type = income
                              then m\<lparr>realIncome :=
                                       filter (\<lambda>i. recurringId i \<noteq> Some ident) (realIncome m)\<rparr>
                              else m\<lparr>plannedExpenses :=
                                       filter (\<lambda>e. recurringId e \<noteq> Some ident) (plannedExpenses m)\<rparr>)
                           else m))
                     (monthlyData s)\<rparr>
      in if type = income
         then s1\<lparr>recurringIncomes := filter (\<lambda>i. id' i \<noteq> ident) (recurringIncomes s1)\<rparr>
         else s1\<lparr>recurringExpenses := filter (\<lambda>e. id' e \<noteq> ident) (recurringExpenses s1)\<rparr>)"

text \<open>The \<open>change\<close> listener of \<open>attachGlobalEventListeners\<close>, for a colour input.\<close>

definition handleColorChange :: "string \<Rightarrow> string \<Rightarrow> 'm AppState \<Rightarrow> 'm AppState" where
  "handleColorChange categoryName newColor s =
     (if categoryName = [] then s
      else s\<lparr>categories :=
             updateAtFound (\<lambda>c. name c = categoryName) (\<lambda>c. c\<lparr>color := newColor\<rparr>)
               (categories s)\<rparr>)"

text \<open>\<open>handleAddCategory\<close>; \<open>input\<close> is the value of the field \<open>new-category-name\<close>.\<close>

definition handleAddCategory :: "Runtime \<Rightarrow> string \<Rightarrow> 'm AppState \<Rightarrow> alert + 'm AppState" where
  "handleAddCategory rt input s =
     (let nm = trim rt input in
      if nm \<noteq> [] \<and> \<not> list_ex (\<lambda>c. toLowerCase rt (name c) = toLowerCase rt nm) (categories s)
      then Inr (s\<lparr>categories :=
                    sortCategories rt (categories s @ [\<lparr>name = nm, color = ''#94a3b8''\<rparr>])\<rparr>)
      else Inl CategoryNameInvalidOrExists)"

text \<open>
  \<open>handleDeleteCategory\<close>; \<open>confirmed\<close> is the answer to \<open>confirm\<close>, which is asked
  only when the category is not in use.
\<close>

definition handleDeleteCategory ::
  "bool \<Rightarrow> string \<Rightarrow> MonthlyData AppState \<Rightarrow> alert + MonthlyData AppState" where
  "handleDeleteCategory confirmed categoryName s =
     (let isUsedInPlanned =
            list_ex (\<lambda>data. list_ex (\<lambda>e. category e = categoryName) (plannedExpenses data))
              (map snd (monthlyData s));
          isUsedInReal =
            list_ex (\<lambda>data. list_ex (\<lambda>e. linkedCategory e = categoryName) (realExpenses data))
              (map snd (monthlyData s));
          isUsedInRecurring = list_ex (\<lambda>e. category e = categoryName) (recurringExpenses s)
      in if isUsedInPlanned \<or> isUsedInRecurring \<or> isUsedInReal
         then Inl (CategoryInUse categoryName
                     ((if isUsedInPlanned then [PlannedUsage] else []) @
                      (if isUsedInReal then [RealUsage] else []) @
                      (if isUsedInRecurring then [RecurringUsage] else [])))
         else if confirmed
         then Inr (s\<lparr>categories := filter (\<lambda>c. name c \<noteq> categoryName) (categories s)\<rparr>)
         else Inr s)"

section \<open>Example inputs\<close>

text \<open>
  A runtime for ASCII text, a parser that knows a few texts, and the states of the
  scenario "Rent, 1000, Housing" with a salary beside it. They are the inputs at which
  the theorems below are instantiated.
\<close>

definition asciiTrim :: "string \<Rightarrow> string" where
  "asciiTrim t = rev (dropWhile (\<lambda>c. c = CHR '' '') (rev (dropWhile (\<lambda>c. c = CHR '' '') t)))"

definition asciiLower :: "string \<Rightarrow> string" where
  "asciiLower t =
     map (\<lambda>c. case map_of (zip ''ABCDEFGHIJKLMNOPQRSTUVWXYZ'' ''abcdefghijklmnopqrstuvwxyz'') c of
                 Some l \<Rightarrow> l | None \<Rightarrow> c) t"

definition demoRuntime :: Runtime where
  "demoRuntime = \<lparr>trim = asciiTrim, toLowerCase = asciiLower, localeCompare = default\<rparr>"

definition salary :: IncomeSource where
  "salary = \<lparr>id' = 7, description = ''Salary'', amount = 2500, isRecurring = None, recurringId = None\<rparr>"

definition rent :: Expense where
  "rent = \<lparr>id' = 8, description = ''Rent'', amount = 1000, isRecurring = None, recurringId = None,
            category = ''Housing''\<rparr>"

definition march :: MonthlyData where
  "march =
     \<lparr>realIncome = [salary\<lparr>id' := 7.5, isRecurring := Some True, recurringId := Some 7\<rparr>],
      plannedExpenses = [rent\<lparr>id' := 8.5, isRecurring := Some True, recurringId := Some 8\<rparr>],
      realExpenses = []\<rparr>"

definition demoState :: "MonthlyData AppState" where
  "demoState =
     \<lparr>isInitialized = True,
      categories =
        [\<lparr>name = ''Housing'', color = ''#ef4444''\<rparr>, \<lparr>name = ''Leisure'', color = ''#ec4899''\<rparr>],
      recurringIncomes = [salary],
      recurringExpenses = [rent],
      monthlyData = [(''2024-02'', march), (''2024-03'', march)],
      selectedMonth = ''2024-03'',
      editingRecurringTransaction = None,
      recurringModalType = expense\<rparr>"

text \<open>The recurring form is set to incomes.\<close>

definition incomeModalState :: "MonthlyData AppState" where
  "incomeModalState = demoState\<lparr>recurringModalType := income\<rparr>"

text \<open>The salary is being edited; in \<open>twiceState\<close> March holds two instances of it.\<close>

definition editingState :: "MonthlyData AppState" where
  "editingState = demoState\<lparr>editingRecurringTransaction := Some (EditingIncome salary)\<rparr>"

definition twiceState :: "MonthlyData AppState" where
  "twiceState =
     editingState\<lparr>monthlyData :=
       [(''2024-03'',
         march\<lparr>realIncome :=
           [salary\<lparr>id' := 7.5, isRecurring := Some True, recurringId := Some 7\<rparr>,
            salary\<lparr>id' := 7.25, isRecurring := Some True, recurringId := Some 7\<rparr>]\<rparr>)]\<rparr>"

text \<open>
  The salary is being edited and its template has been deleted meanwhile, with April as
  pivot: February and March keep their instance of it. A bonus is the recurring income
  that is left.
\<close>

definition bonus :: IncomeSource where
  "bonus = \<lparr>id' = 5, description = ''Bonus'', amount = 300, isRecurring = None, recurringId = None\<rparr>"

definition april :: MonthlyData where
  "april =
     \<lparr>realIncome = [bonus\<lparr>id' := 5.5, isRecurring := Some True, recurringId := Some 5\<rparr>],
      plannedExpenses = [rent\<lparr>id' := 8.5, isRecurring := Some True, recurringId := Some 8\<rparr>],
      realExpenses = []\<rparr>"

definition orphanState :: "MonthlyData AppState" where
  "orphanState =
     editingState\<lparr>recurringIncomes := [bonus],
       monthlyData := [(''2024-02'', march), (''2024-03'', march), (''2024-04'', april)]\<rparr>"

definition raiseForm :: RecurringForm where
  "raiseForm = \<lparr>formDescription = ''Pay'', formAmount = Some 2600, formCategory = ''Housing''\<rparr>"

definition gymForm :: RecurringForm where
  "gymForm = \<lparr>formDescription = ''Gym'', formAmount = Some 30, formCategory = ''Leisure''\<rparr>"

definition demoIds :: "string \<Rightarrow> number" where
  "demoIds monthKey = real (length monthKey)"

definition legacyMonth :: "string StoredMonth" where
  "legacyMonth =
     \<lparr>StoredMonth.realIncome = Some [], expenses = Some [rent],
      StoredMonth.plannedExpenses = None, StoredMonth.realExpenses = None,
      otherFields = [(''note'', ''kept'')]\<rparr>"

definition demoJson :: "string JsonParse" where
  "demoJson =
     \<lparr>parseIncomes =
        (\<lambda>t. if t = ''[]'' then Parsed [] else if t = ''[salary]'' then Parsed [salary]
              else if t = ''null'' then Falsy else Throws),
      parseExpenses =
        (\<lambda>t. if t = ''[]'' then Parsed [] else if t = ''[rent]'' then Parsed [rent]
              else if t = ''null'' then Falsy else Throws),
      parseCategories =
        (\<lambda>t. if t = ''[]'' then Parsed [] else if t = ''null'' then Falsy else Throws),
      parseMonthlyData =
        (\<lambda>t. if t = ''{}'' then Parsed []
              else if t = ''{legacy}'' then Parsed [(''2023-12'', legacyMonth)]
              else if t = ''{legacy, current}''
              then Parsed [(''2023-12'', legacyMonth), (''2024-03'', legacyMonth)]
              else if t = ''null'' then Falsy else Throws)\<rparr>"

definition demoBoot :: "string StoredMonth AppState" where
  "demoBoot =
     \<lparr>isInitialized = False, categories = [], recurringIncomes = [], recurringExpenses = [],
      monthlyData = [], selectedMonth = ''2024-03'', editingRecurringTransaction = None,
      recurringModalType = expense\<rparr>"

definition demoStorage :: "string \<rightharpoonup> string" where
  "demoStorage =
     [''recurringIncomes'' \<mapsto> ''{not json'', ''recurringExpenses'' \<mapsto> ''[rent]'',
      ''categories'' \<mapsto> ''[]'', ''monthlyData'' \<mapsto> ''{legacy}'']"

text \<open>A storage that holds the selected month, and \<open>null\<close> for the categories.\<close>

definition currentStorage :: "string \<rightharpoonup> string" where
  "currentStorage =
     [''recurringExpenses'' \<mapsto> ''[rent]'', ''categories'' \<mapsto> ''null'',
      ''monthlyData'' \<mapsto> ''{legacy, current}'']"

section \<open>Lookups in \<open>monthlyData\<close>\<close>

lemma map_of_snoc:
  "map_of (md @ [(k, v)]) k' =
     (case map_of md k' of Some x \<Rightarrow> Some x | None \<Rightarrow> if k' = k then Some v else None)"
  by (simp add: map_add_def split: option.splits)

lemma map_of_map_keyed:
  "map_of (map (\<lambda>(k, v). (k, f k v)) md) k' = map_option (f k') (map_of md k')"
  by (induction md) auto

section \<open>Seeding a month\<close>

lemma createMonth_incomes:
  "list_all2 (\<lambda>i t. isRecurring i = Some True \<and> recurringId i = Some (id' t) \<and>
       description i = description t \<and> amount i = amount t)
     (realIncome (createMonthDataFromRecurring newId s)) (recurringIncomes s)"
  by (simp add: createMonthDataFromRecurring_def list_all2_conv_all_nth nth_enumerate_eq)

lemma createMonth_expenses:
  "list_all2 (\<lambda>e t. isRecurring e = Some True \<and> recurringId e = Some (id' t) \<and>
       description e = description t \<and> amount e = amount t \<and> category e = category t)
     (plannedExpenses (createMonthDataFromRecurring newId s)) (recurringExpenses s)"
  by (simp add: createMonthDataFromRecurring_def list_all2_conv_all_nth nth_enumerate_eq)

lemma createMonth_real: "realExpenses (createMonthDataFromRecurring newId s) = []"
  by (simp add: createMonthDataFromRecurring_def)

lemma navigation_new_month:
  assumes "map_of (monthlyData s) k = None"
  shows "map_of (monthlyData (handleMonthNavigation k newId s)) k =
           Some (createMonthDataFromRecurring newId s)"
  using assms by (simp add: handleMonthNavigation_def Let_def map_of_snoc del: map_of_append)

lemma load_snd_other: "k \<noteq> k' \<Longrightarrow> snd (loadFromStorage parse st k') k = st k"
  by (simp add: loadFromStorage_def split: option.splits parsed.splits)

lemma load_fst_cong: "st k = st' k \<Longrightarrow> fst (loadFromStorage parse st k) = fst (loadFromStorage parse st' k)"
  by (simp add: loadFromStorage_def split: option.splits parsed.splits)

lemma init_incomes:
  "\<not> isInitialized s \<Longrightarrow>
   recurringIncomes (fst (initializeState rt js newId st s)) =
     (case fst (loadFromStorage (parseIncomes js) st ''recurringIncomes'') of
        None \<Rightarrow> [] | Some v \<Rightarrow> v)"
  by (simp add: initializeState_def Let_def split_beta)

lemma init_expenses:
  "\<not> isInitialized s \<Longrightarrow>
   recurringExpenses (fst (initializeState rt js newId st s)) =
     (case fst (loadFromStorage (parseExpenses js) st ''recurringExpenses'') of
        None \<Rightarrow> [] | Some v \<Rightarrow> v)"
proof -
  assume "\<not> isInitialized s"
  moreover have "fst (loadFromStorage (parseExpenses js)
        (snd (loadFromStorage (parseIncomes js) st ''recurringIncomes''))
        ''recurringExpenses'')
      = fst (loadFromStorage (parseExpenses js) st ''recurringExpenses'')"
    by (rule load_fst_cong) (simp add: load_snd_other)
  ultimately show ?thesis
    by (simp add: initializeState_def Let_def split_beta)
qed

lemma load_fst_eq:
  "fst (loadFromStorage parse st k) =
     (case st k of None \<Rightarrow> None
      | Some t \<Rightarrow> if t = [] then None
                 else (case parse t of Parsed v \<Rightarrow> Some v | Falsy \<Rightarrow> None | Throws \<Rightarrow> None))"
  by (simp add: loadFromStorage_def split: option.splits parsed.splits)

lemma init_categories:
  "\<not> isInitialized s \<Longrightarrow>
   categories (fst (initializeState rt js newId st s)) =
     sortCategories rt
       (case fst (loadFromStorage (parseCategories js) st ''categories'') of
          None \<Rightarrow> defaultCategories | Some v \<Rightarrow> v)"
  by (simp add: initializeState_def Let_def split_beta load_fst_eq load_snd_other)

lemma init_monthly:
  "\<not> isInitialized s \<Longrightarrow>
   monthlyData (fst (initializeState rt js newId st s)) =
     (let md = migrateAll
                 (case fst (loadFromStorage (parseMonthlyData js) st ''monthlyData'') of
                    None \<Rightarrow> [] | Some v \<Rightarrow> v)
      in if map_of md (selectedMonth s) = None
         then md @ [(selectedMonth s,
                stored (createMonthDataFromRecurring newId (fst (initializeState rt js newId st s))))]
         else md)"
  by (simp add: initializeState_def Let_def split_beta load_fst_eq load_snd_other
      createMonthDataFromRecurring_def)

lemma map_of_migrateAll: "map_of (migrateAll md) k = map_option migrateMonth (map_of md k)"
  unfolding migrateAll_def by (rule map_of_map_keyed)

lemma init_new_month:
  assumes "\<not> isInitialized s"
    and "map_of (case fst (loadFromStorage (parseMonthlyData js) st ''monthlyData'') of
                   None \<Rightarrow> [] | Some v \<Rightarrow> v) (selectedMonth s) = None"
  shows "map_of (monthlyData (fst (initializeState rt js newId st s))) (selectedMonth s) =
           Some (stored (createMonthDataFromRecurring newId (fst (initializeState rt js newId st s))))"
  using assms
  by (simp add: init_monthly Let_def map_of_migrateAll map_of_snoc del: map_of_append)

text \<open>
  Claim C4. A month that is not yet in \<open>monthlyData\<close> is materialized, by the month
  buttons and by \<open>initializeState\<close> alike, as the result of
  \<open>createMonthDataFromRecurring\<close>: \<open>realIncome\<close> holds one instance for each
  recurring income, in the order of the templates, \<open>plannedExpenses\<close> one for each
  recurring expense, each instance with \<open>isRecurring = true\<close>, \<open>recurringId\<close> the id
  of its template and the template's description and amount (and category, for an
  expense); \<open>realExpenses\<close> is empty. In \<open>initializeState\<close> the templates are the ones
  just loaded.
\<close>

theorem seeding_on_materialization:
  "(map_of (monthlyData s) k = None \<longrightarrow>
      (\<exists>m. map_of (monthlyData (handleMonthNavigation k newId s)) k = Some m \<and>
         list_all2 (\<lambda>i t. isRecurring i = Some True \<and> recurringId i = Some (id' t) \<and>
              description i = description t \<and> amount i = amount t)
            (realIncome m) (recurringIncomes s) \<and>
         list_all2 (\<lambda>e t. isRecurring e = Some True \<and> recurringId e = Some (id' t) \<and>
              description e = description t \<and> amount e = amount t \<and> category e = category t)
            (plannedExpenses m) (recurringExpenses s) \<and>
         realExpenses m = [])) \<and>
   (\<not> isInitialized b \<and>
    map_of (case fst (loadFromStorage (parseMonthlyData js) st ''monthlyData'') of
              None \<Rightarrow> [] | Some v \<Rightarrow> v) (selectedMonth b) = None \<longrightarrow>
      (\<exists>m. map_of (monthlyData (fst (initializeState rt js newId' st b))) (selectedMonth b) = Some (stored m) \<and>
         list_all2 (\<lambda>i t. isRecurring i = Some True \<and> recurringId i = Some (id' t) \<and>
              description i = description t \<and> amount i = amount t)
            (realIncome m) (recurringIncomes (fst (initializeState rt js newId' st b))) \<and>
         list_all2 (\<lambda>e t. isRecurring e = Some True \<and> recurringId e = Some (id' t) \<and>
              description e = description t \<and> amount e = amount t \<and> category e = category t)
            (plannedExpenses m) (recurringExpenses (fst (initializeState rt js newId' st b))) \<and>
         realExpenses m = []))"
proof (intro conjI impI)
  assume "map_of (monthlyData s) k = None"
  then have "map_of (monthlyData (handleMonthNavigation k newId s)) k =
      Some (createMonthDataFromRecurring newId s)"
    by (rule navigation_new_month)
  then show "\<exists>m. map_of (monthlyData (handleMonthNavigation k newId s)) k = Some m \<and>
         list_all2 (\<lambda>i t. isRecurring i = Some True \<and> recurringId i = Some (id' t) \<and>
              description i = description t \<and> amount i = amount t)
            (realIncome m) (recurringIncomes s) \<and>
         list_all2 (\<lambda>e t. isRecurring e = Some True \<and> recurringId e = Some (id' t) \<and>
              description e = description t \<and> amount e = amount t \<and> category e = category t)
            (plannedExpenses m) (recurringExpenses s) \<and>
         realExpenses m = []"
    using createMonth_incomes[of newId s] createMonth_expenses[of newId s]
      createMonth_real[of newId s] by blast
next
  let ?b = "fst (initializeState rt js newId' st b)"
  assume "\<not> isInitialized b \<and>
    map_of (case fst (loadFromStorage (parseMonthlyData js) st ''monthlyData'') of
              None \<Rightarrow> [] | Some v \<Rightarrow> v) (selectedMonth b) = None"
  then have "map_of (monthlyData ?b) (selectedMonth b) =
      Some (stored (createMonthDataFromRecurring newId' ?b))"
    using init_new_month by blast
  then show "\<exists>m. map_of (monthlyData ?b) (selectedMonth b) = Some (stored m) \<and>
         list_all2 (\<lambda>i t. isRecurring i = Some True \<and> recurringId i = Some (id' t) \<and>
              description i = description t \<and> amount i = amount t)
            (realIncome m) (recurringIncomes ?b) \<and>
         list_all2 (\<lambda>e t. isRecurring e = Some True \<and> recurringId e = Some (id' t) \<and>
              description e = description t \<and> amount e = amount t \<and> category e = category t)
            (plannedExpenses m) (recurringExpenses ?b) \<and>
         realExpenses m = []"
    using createMonth_incomes[of newId' ?b] createMonth_expenses[of newId' ?b]
      createMonth_real[of newId' ?b] by blast
qed

theorem seeding_on_materialization_witness:
  "map_of (monthlyData demoState) ''2024-04'' = None \<and>
   (\<exists>m. map_of (monthlyData (handleMonthNavigation ''2024-04'' real demoState)) ''2024-04'' = Some m \<and>
      list_all2 (\<lambda>i t. isRecurring i = Some True \<and> recurringId i = Some (id' t) \<and>
           description i = description t \<and> amount i = amount t)
         (realIncome m) (recurringIncomes demoState) \<and>
      list_all2 (\<lambda>e t. isRecurring e = Some True \<and> recurringId e = Some (id' t) \<and>
           description e = description t \<and> amount e = amount t \<and> category e = category t)
         (plannedExpenses m) (recurringExpenses demoState) \<and>
      realExpenses m = []) \<and>
   \<not> isInitialized demoBoot \<and>
   map_of (case fst (loadFromStorage (parseMonthlyData demoJson) demoStorage ''monthlyData'') of
             None \<Rightarrow> [] | Some v \<Rightarrow> v) (selectedMonth demoBoot) = None \<and>
   (\<exists>m. map_of (monthlyData (fst (initializeState demoRuntime demoJson real demoStorage demoBoot))) (selectedMonth demoBoot) =
           Some (stored m) \<and>
      list_all2 (\<lambda>i t. isRecurring i = Some True \<and> recurringId i = Some (id' t) \<and>
           description i = description t \<and> amount i = amount t)
         (realIncome m) (recurringIncomes (fst (initializeState demoRuntime demoJson real demoStorage demoBoot))) \<and>
      list_all2 (\<lambda>e t. isRecurring e = Some True \<and> recurringId e = Some (id' t) \<and>
           description e = description t \<and> amount e = amount t \<and> category e = category t)
         (plannedExpenses m) (recurringExpenses (fst (initializeState demoRuntime demoJson real demoStorage demoBoot))) \<and>
      realExpenses m = [])"
proof -
  have h1: "map_of (monthlyData demoState) ''2024-04'' = None"
    by (simp add: demoState_def)
  have h2: "\<not> isInitialized demoBoot"
    by (simp add: demoBoot_def)
  have h3: "map_of (case fst (loadFromStorage (parseMonthlyData demoJson) demoStorage
               ''monthlyData'') of None \<Rightarrow> [] | Some v \<Rightarrow> v) (selectedMonth demoBoot) = None"
    by (simp add: demoBoot_def demoStorage_def demoJson_def loadFromStorage_def)
  show ?thesis
    using seeding_on_materialization[where s = demoState and k = "''2024-04''" and newId = real
        and b = demoBoot and js = demoJson and st = demoStorage and rt = demoRuntime and newId' = real]
      h1 h2 h3 by blast
qed

section \<open>Migration of persisted ledgers\<close>

lemma migrateMonth_idem: "migrateMonth (migrateMonth m) = migrateMonth m"
  by (simp add: migrateMonth_def Let_def)

lemma migrateMonth_current:
  "StoredMonth.plannedExpenses m \<noteq> None \<Longrightarrow> StoredMonth.realExpenses m \<noteq> None \<Longrightarrow> migrateMonth m = m"
  by (auto simp: migrateMonth_def Let_def)

lemma migrateAll_current:
  assumes "\<forall>(key, month) \<in> set md.
      StoredMonth.plannedExpenses month \<noteq> None \<and> StoredMonth.realExpenses month \<noteq> None"
  shows "migrateAll md = md"
  unfolding migrateAll_def
proof (rule map_idI)
  fix x assume "x \<in> set md"
  with assms have "migrateMonth (snd x) = snd x"
    by (intro migrateMonth_current) auto
  then show "(case x of (key', month) \<Rightarrow> (key', migrateMonth month)) = x"
    by (cases x) simp
qed

text \<open>
  Claim C7. The migration that \<open>initializeState\<close> runs over the persisted ledgers is
  idempotent and keeps what it does not migrate: running it twice gives what running it
  once gives; it keeps the month keys and their order; a ledger map whose ledgers all
  have \<open>plannedExpenses\<close> and \<open>realExpenses\<close> comes out as it went in; and in every
  ledger \<open>realIncome\<close> and the properties the program does not know are untouched,
  \<open>expenses\<close> moves to \<open>plannedExpenses\<close> exactly when \<open>plannedExpenses\<close> is missing, and
  \<open>realExpenses\<close> becomes the empty list exactly when it is missing.
\<close>

theorem migration_idempotent_nondestructive:
  "migrateAll (migrateAll md) = migrateAll md \<and>
   map fst (migrateAll md) = map fst md \<and>
   ((\<forall>(key, month) \<in> set md.
        StoredMonth.plannedExpenses month \<noteq> None \<and> StoredMonth.realExpenses month \<noteq> None) \<longrightarrow>
      migrateAll md = md) \<and>
   (\<forall>key month. map_of md key = Some month \<longrightarrow>
      map_of (migrateAll md) key = Some (migrateMonth month) \<and>
      StoredMonth.realIncome (migrateMonth month) = StoredMonth.realIncome month \<and>
      otherFields (migrateMonth month) = otherFields month \<and>
      StoredMonth.more (migrateMonth month) = StoredMonth.more month \<and>
      StoredMonth.plannedExpenses (migrateMonth month) =
        (if StoredMonth.plannedExpenses month = None then expenses month
         else StoredMonth.plannedExpenses month) \<and>
      expenses (migrateMonth month) =
        (if StoredMonth.plannedExpenses month = None then None else expenses month) \<and>
      StoredMonth.realExpenses (migrateMonth month) =
        (if StoredMonth.realExpenses month = None then Some [] else StoredMonth.realExpenses month))"
proof (intro conjI allI impI)
  show "migrateAll (migrateAll md) = migrateAll md"
    by (simp add: migrateAll_def split_beta migrateMonth_idem)
  show "map fst (migrateAll md) = map fst md"
    by (simp add: migrateAll_def split_beta comp_def)
  show "migrateAll md = md"
    if "\<forall>(key, month) \<in> set md.
        StoredMonth.plannedExpenses month \<noteq> None \<and> StoredMonth.realExpenses month \<noteq> None"
    using that by (rule migrateAll_current)
  fix key month
  assume "map_of md key = Some month"
  then show "map_of (migrateAll md) key = Some (migrateMonth month)"
    by (simp add: map_of_migrateAll)
qed (auto simp: migrateMonth_def Let_def)

theorem migration_idempotent_nondestructive_witness:
  "migrateAll (migrateAll [(''2023-12'', legacyMonth), (''2024-03'', stored march)]) =
     migrateAll [(''2023-12'', legacyMonth), (''2024-03'', stored march)] \<and>
   StoredMonth.plannedExpenses (stored march :: string StoredMonth) \<noteq> None \<and>
   StoredMonth.realExpenses (stored march :: string StoredMonth) \<noteq> None \<and>
   migrateAll [(''2024-03'', stored march :: string StoredMonth)] = [(''2024-03'', stored march)] \<and>
   map_of [(''2023-12'', legacyMonth)] ''2023-12'' = Some legacyMonth \<and>
   map_of (migrateAll [(''2023-12'', legacyMonth)]) ''2023-12'' =
     Some \<lparr>StoredMonth.realIncome = Some [], expenses = None,
           StoredMonth.plannedExpenses = Some [rent], StoredMonth.realExpenses = Some [],
           otherFields = [(''note'', ''kept'')]\<rparr>"
proof -
  have h1: "\<forall>(key, month) \<in> set [(''2024-03'', stored march :: string StoredMonth)].
        StoredMonth.plannedExpenses month \<noteq> None \<and> StoredMonth.realExpenses month \<noteq> None"
    by (simp add: stored_def)
  have h2: "map_of [(''2023-12'', legacyMonth)] ''2023-12'' = Some legacyMonth"
    by simp
  have h3: "migrateMonth legacyMonth =
     \<lparr>StoredMonth.realIncome = Some [], expenses = None,
           StoredMonth.plannedExpenses = Some [rent], StoredMonth.realExpenses = Some [],
           otherFields = [(''note'', ''kept'')]\<rparr>"
    by (simp add: migrateMonth_def legacyMonth_def)
  show ?thesis
    using migration_idempotent_nondestructive[of "[(''2023-12'', legacyMonth), (''2024-03'', stored march)]"]
      migration_idempotent_nondestructive[of "[(''2024-03'', stored march :: string StoredMonth)]"]
      migration_idempotent_nondestructive[of "[(''2023-12'', legacyMonth)]"]
      h1 h2 h3
    by (simp add: stored_def)
qed

section \<open>Loading the four blobs\<close>

lemma init_monthly_loaded:
  assumes "\<not> isInitialized s"
    and "k \<noteq> selectedMonth s"
  shows "map_of (monthlyData (fst (initializeState rt js newId st s))) k =
     map_option migrateMonth
       (map_of (case fst (loadFromStorage (parseMonthlyData js) st ''monthlyData'') of
                  None \<Rightarrow> [] | Some v \<Rightarrow> v) k)"
  using assms
  by (simp add: init_monthly Let_def map_of_migrateAll map_of_snoc del: map_of_append
      split: option.splits)

lemma init_monthly_persisted:
  assumes "\<not> isInitialized s"
    and "map_of (case fst (loadFromStorage (parseMonthlyData js) st ''monthlyData'') of
                  None \<Rightarrow> [] | Some v \<Rightarrow> v) k = Some m"
  shows "map_of (monthlyData (fst (initializeState rt js newId st s))) k = Some (migrateMonth m)"
  using assms
  by (simp add: init_monthly Let_def map_of_migrateAll map_of_snoc del: map_of_append)

text \<open>
  Claim C9. \<open>initializeState\<close> loads the four blobs independently. A blob that is
  absent, empty or does not parse (or parses to \<open>null\<close> or another value taken for
  false) gives its default: no recurring incomes, no recurring expenses, the sorted seed
  list of categories, no ledgers; a blob that parses to a value of its type gives that
  value (the categories sorted, the ledgers migrated), whatever the other three blobs
  hold. In particular a categories blob that parses to a list, the empty list too, is
  never replaced by the seed list, and every persisted ledger, that of the selected
  month too, is loaded as persisted and migrated. The last part states the independence
  outright: two uninitialized states that agree on one blob load the same value for it.
  (Only a selected month that is not persisted depends on more than the ledgers' blob:
  it is seeded from the recurring templates, as Claim C4 says.)
\<close>

theorem blobs_load_independently:
  assumes "\<not> isInitialized s"
  shows
    "(st ''recurringIncomes'' = None \<or> st ''recurringIncomes'' = Some [] \<or>
        (\<exists>t. st ''recurringIncomes'' = Some t \<and> (parseIncomes js t = Throws \<or> parseIncomes js t = Falsy)) \<longrightarrow>
          recurringIncomes (fst (initializeState rt js newId st s)) = []) \<and>
     (\<forall>t v. st ''recurringIncomes'' = Some t \<and> t \<noteq> [] \<and> parseIncomes js t = Parsed v \<longrightarrow>
          recurringIncomes (fst (initializeState rt js newId st s)) = v) \<and>
     (st ''recurringExpenses'' = None \<or> st ''recurringExpenses'' = Some [] \<or>
        (\<exists>t. st ''recurringExpenses'' = Some t \<and> (parseExpenses js t = Throws \<or> parseExpenses js t = Falsy)) \<longrightarrow>
          recurringExpenses (fst (initializeState rt js newId st s)) = []) \<and>
     (\<forall>t v. st ''recurringExpenses'' = Some t \<and> t \<noteq> [] \<and> parseExpenses js t = Parsed v \<longrightarrow>
          recurringExpenses (fst (initializeState rt js newId st s)) = v) \<and>
     (st ''categories'' = None \<or> st ''categories'' = Some [] \<or>
        (\<exists>t. st ''categories'' = Some t \<and> (parseCategories js t = Throws \<or> parseCategories js t = Falsy)) \<longrightarrow>
          categories (fst (initializeState rt js newId st s)) = sortCategories rt defaultCategories) \<and>
     (\<forall>t v. st ''categories'' = Some t \<and> t \<noteq> [] \<and> parseCategories js t = Parsed v \<longrightarrow>
          categories (fst (initializeState rt js newId st s)) = sortCategories rt v) \<and>
     (st ''monthlyData'' = None \<or> st ''monthlyData'' = Some [] \<or>
        (\<exists>t. st ''monthlyData'' = Some t \<and> (parseMonthlyData js t = Throws \<or> parseMonthlyData js t = Falsy)) \<longrightarrow>
          (\<forall>k. k \<noteq> selectedMonth s \<longrightarrow> map_of (monthlyData (fst (initializeState rt js newId st s))) k = None)) \<and>
     (\<forall>t v. st ''monthlyData'' = Some t \<and> t \<noteq> [] \<and> parseMonthlyData js t = Parsed v \<longrightarrow>
          (\<forall>k m. map_of v k = Some m \<longrightarrow>
             map_of (monthlyData (fst (initializeState rt js newId st s))) k = Some (migrateMonth m)) \<and>
          (\<forall>k. k \<noteq> selectedMonth s \<and> map_of v k = None \<longrightarrow>
             map_of (monthlyData (fst (initializeState rt js newId st s))) k = None)) \<and>
     (\<forall>s2 st2. \<not> isInitialized s2 \<longrightarrow>
        (st2 ''recurringIncomes'' = st ''recurringIncomes'' \<longrightarrow>
           recurringIncomes (fst (initializeState rt js newId st2 s2)) = recurringIncomes (fst (initializeState rt js newId st s))) \<and>
        (st2 ''recurringExpenses'' = st ''recurringExpenses'' \<longrightarrow>
           recurringExpenses (fst (initializeState rt js newId st2 s2)) = recurringExpenses (fst (initializeState rt js newId st s))) \<and>
        (st2 ''categories'' = st ''categories'' \<longrightarrow>
           categories (fst (initializeState rt js newId st2 s2)) = categories (fst (initializeState rt js newId st s))) \<and>
        (st2 ''monthlyData'' = st ''monthlyData'' \<longrightarrow>
           (\<forall>k. (k \<noteq> selectedMonth s \<and> k \<noteq> selectedMonth s2) \<or>
                map_of (case fst (loadFromStorage (parseMonthlyData js) st ''monthlyData'') of
                  None \<Rightarrow> [] | Some v \<Rightarrow> v) k \<noteq> None \<longrightarrow>
              map_of (monthlyData (fst (initializeState rt js newId st2 s2))) k = map_of (monthlyData (fst (initializeState rt js newId st s))) k)))"
proof -
  have A: "(st ''recurringIncomes'' = None \<or> st ''recurringIncomes'' = Some [] \<or>
        (\<exists>t. st ''recurringIncomes'' = Some t \<and> (parseIncomes js t = Throws \<or> parseIncomes js t = Falsy)) \<longrightarrow>
          recurringIncomes (fst (initializeState rt js newId st s)) = []) \<and>
     (\<forall>t v. st ''recurringIncomes'' = Some t \<and> t \<noteq> [] \<and> parseIncomes js t = Parsed v \<longrightarrow>
          recurringIncomes (fst (initializeState rt js newId st s)) = v)"
    by (auto simp: init_incomes[OF assms] load_fst_eq)
  have B: "(st ''recurringExpenses'' = None \<or> st ''recurringExpenses'' = Some [] \<or>
        (\<exists>t. st ''recurringExpenses'' = Some t \<and> (parseExpenses js t = Throws \<or> parseExpenses js t = Falsy)) \<longrightarrow>
          recurringExpenses (fst (initializeState rt js newId st s)) = []) \<and>
     (\<forall>t v. st ''recurringExpenses'' = Some t \<and> t \<noteq> [] \<and> parseExpenses js t = Parsed v \<longrightarrow>
          recurringExpenses (fst (initializeState rt js newId st s)) = v)"
    by (auto simp: init_expenses[OF assms] load_fst_eq)
  have C: "(st ''categories'' = None \<or> st ''categories'' = Some [] \<or>
        (\<exists>t. st ''categories'' = Some t \<and> (parseCategories js t = Throws \<or> parseCategories js t = Falsy)) \<longrightarrow>
          categories (fst (initializeState rt js newId st s)) = sortCategories rt defaultCategories) \<and>
     (\<forall>t v. st ''categories'' = Some t \<and> t \<noteq> [] \<and> parseCategories js t = Parsed v \<longrightarrow>
          categories (fst (initializeState rt js newId st s)) = sortCategories rt v)"
    by (auto simp: init_categories[OF assms] load_fst_eq)
  have D1: "(st ''monthlyData'' = None \<or> st ''monthlyData'' = Some [] \<or>
        (\<exists>t. st ''monthlyData'' = Some t \<and> (parseMonthlyData js t = Throws \<or> parseMonthlyData js t = Falsy)) \<longrightarrow>
          (\<forall>k. k \<noteq> selectedMonth s \<longrightarrow> map_of (monthlyData (fst (initializeState rt js newId st s))) k = None))"
    by (auto simp: init_monthly_loaded[OF assms] load_fst_eq)
  have D2: "(\<forall>t v. st ''monthlyData'' = Some t \<and> t \<noteq> [] \<and> parseMonthlyData js t = Parsed v \<longrightarrow>
          (\<forall>k m. map_of v k = Some m \<longrightarrow>
             map_of (monthlyData (fst (initializeState rt js newId st s))) k = Some (migrateMonth m)) \<and>
          (\<forall>k. k \<noteq> selectedMonth s \<and> map_of v k = None \<longrightarrow>
             map_of (monthlyData (fst (initializeState rt js newId st s))) k = None))"
  proof (intro allI impI conjI)
    fix t v k m
    assume v: "st ''monthlyData'' = Some t \<and> t \<noteq> [] \<and> parseMonthlyData js t = Parsed v"
      and m: "map_of v k = Some m"
    then have "map_of (case fst (loadFromStorage (parseMonthlyData js) st ''monthlyData'') of
                  None \<Rightarrow> [] | Some v \<Rightarrow> v) k = Some m"
      by (simp add: load_fst_eq)
    then show "map_of (monthlyData (fst (initializeState rt js newId st s))) k = Some (migrateMonth m)"
      by (rule init_monthly_persisted[OF assms])
  next
    fix t v k
    assume "st ''monthlyData'' = Some t \<and> t \<noteq> [] \<and> parseMonthlyData js t = Parsed v"
      and "k \<noteq> selectedMonth s \<and> map_of v k = None"
    then show "map_of (monthlyData (fst (initializeState rt js newId st s))) k = None"
      by (simp add: init_monthly_loaded[OF assms] load_fst_eq)
  qed
  have E: "\<forall>s2 st2. \<not> isInitialized s2 \<longrightarrow>
        (st2 ''recurringIncomes'' = st ''recurringIncomes'' \<longrightarrow>
           recurringIncomes (fst (initializeState rt js newId st2 s2)) = recurringIncomes (fst (initializeState rt js newId st s))) \<and>
        (st2 ''recurringExpenses'' = st ''recurringExpenses'' \<longrightarrow>
           recurringExpenses (fst (initializeState rt js newId st2 s2)) = recurringExpenses (fst (initializeState rt js newId st s))) \<and>
        (st2 ''categories'' = st ''categories'' \<longrightarrow>
           categories (fst (initializeState rt js newId st2 s2)) = categories (fst (initializeState rt js newId st s))) \<and>
        (st2 ''monthlyData'' = st ''monthlyData'' \<longrightarrow>
           (\<forall>k. (k \<noteq> selectedMonth s \<and> k \<noteq> selectedMonth s2) \<or>
                map_of (case fst (loadFromStorage (parseMonthlyData js) st ''monthlyData'') of
                  None \<Rightarrow> [] | Some v \<Rightarrow> v) k \<noteq> None \<longrightarrow>
              map_of (monthlyData (fst (initializeState rt js newId st2 s2))) k = map_of (monthlyData (fst (initializeState rt js newId st s))) k))"
  proof (intro allI impI conjI)
    fix s2 :: "'a StoredMonth AppState" and st2 :: "string \<rightharpoonup> string"
    assume n: "\<not> isInitialized s2"
    show "recurringIncomes (fst (initializeState rt js newId st2 s2)) = recurringIncomes (fst (initializeState rt js newId st s))"
      if "st2 ''recurringIncomes'' = st ''recurringIncomes''"
      using that by (simp add: init_incomes[OF n] init_incomes[OF assms] load_fst_eq)
    show "recurringExpenses (fst (initializeState rt js newId st2 s2)) = recurringExpenses (fst (initializeState rt js newId st s))"
      if "st2 ''recurringExpenses'' = st ''recurringExpenses''"
      using that by (simp add: init_expenses[OF n] init_expenses[OF assms] load_fst_eq)
    show "categories (fst (initializeState rt js newId st2 s2)) = categories (fst (initializeState rt js newId st s))"
      if "st2 ''categories'' = st ''categories''"
      using that by (simp add: init_categories[OF n] init_categories[OF assms] load_fst_eq)
    show "map_of (monthlyData (fst (initializeState rt js newId st2 s2))) k = map_of (monthlyData (fst (initializeState rt js newId st s))) k"
      if eq: "st2 ''monthlyData'' = st ''monthlyData''"
        and k: "(k \<noteq> selectedMonth s \<and> k \<noteq> selectedMonth s2) \<or>
                map_of (case fst (loadFromStorage (parseMonthlyData js) st ''monthlyData'') of
                  None \<Rightarrow> [] | Some v \<Rightarrow> v) k \<noteq> None" for k
    proof -
      have l: "fst (loadFromStorage (parseMonthlyData js) st2 ''monthlyData'') =
          fst (loadFromStorage (parseMonthlyData js) st ''monthlyData'')"
        using eq by (rule load_fst_cong)
      from k show ?thesis
      proof
        assume "k \<noteq> selectedMonth s \<and> k \<noteq> selectedMonth s2"
        then show ?thesis
          by (simp add: init_monthly_loaded[OF n] init_monthly_loaded[OF assms] l)
      next
        assume "map_of (case fst (loadFromStorage (parseMonthlyData js) st ''monthlyData'') of
                  None \<Rightarrow> [] | Some v \<Rightarrow> v) k \<noteq> None"
        then obtain m where m: "map_of (case fst (loadFromStorage (parseMonthlyData js) st ''monthlyData'') of
                  None \<Rightarrow> [] | Some v \<Rightarrow> v) k = Some m"
          by blast
        show ?thesis
          using init_monthly_persisted[OF assms m] init_monthly_persisted[OF n m[folded l]]
          by simp
      qed
    qed
  qed
  from A B C D1 D2 E show ?thesis
    by (intro conjI) (rule conjunct1, assumption | rule conjunct2, assumption | assumption)+
qed

theorem blobs_load_independently_witness:
  "\<not> isInitialized demoBoot \<and> selectedMonth demoBoot = ''2024-03'' \<and>
   demoStorage ''recurringIncomes'' = Some ''{not json'' \<and>
   parseIncomes demoJson ''{not json'' = Throws \<and>
   recurringIncomes (fst (initializeState demoRuntime demoJson real demoStorage demoBoot)) = [] \<and>
   demoStorage ''recurringExpenses'' = Some ''[rent]'' \<and>
   parseExpenses demoJson ''[rent]'' = Parsed [rent] \<and>
   recurringExpenses (fst (initializeState demoRuntime demoJson real demoStorage demoBoot)) = [rent] \<and>
   demoStorage ''categories'' = Some ''[]'' \<and>
   parseCategories demoJson ''[]'' = Parsed [] \<and>
   categories (fst (initializeState demoRuntime demoJson real demoStorage demoBoot)) = sortCategories demoRuntime [] \<and>
   demoStorage ''monthlyData'' = Some ''{legacy}'' \<and>
   parseMonthlyData demoJson ''{legacy}'' = Parsed [(''2023-12'', legacyMonth)] \<and>
   map_of (monthlyData (fst (initializeState demoRuntime demoJson real demoStorage demoBoot))) ''2023-12'' = Some (migrateMonth legacyMonth) \<and>
   currentStorage ''categories'' = Some ''null'' \<and>
   parseCategories demoJson ''null'' = Falsy \<and>
   categories (fst (initializeState demoRuntime demoJson real currentStorage demoBoot)) = sortCategories demoRuntime defaultCategories \<and>
   currentStorage ''monthlyData'' = Some ''{legacy, current}'' \<and>
   parseMonthlyData demoJson ''{legacy, current}'' =
     Parsed [(''2023-12'', legacyMonth), (''2024-03'', legacyMonth)] \<and>
   map_of (monthlyData (fst (initializeState demoRuntime demoJson real currentStorage demoBoot))) ''2024-03'' = Some (migrateMonth legacyMonth)"
proof -
  have h0: "\<not> isInitialized demoBoot" and hs: "selectedMonth demoBoot = ''2024-03''"
    by (simp_all add: demoBoot_def)
  have h1: "demoStorage ''recurringIncomes'' = Some ''{not json''"
    "demoStorage ''recurringExpenses'' = Some ''[rent]''"
    "demoStorage ''categories'' = Some ''[]''"
    "demoStorage ''monthlyData'' = Some ''{legacy}''"
    by (simp_all add: demoStorage_def)
  have h2: "parseIncomes demoJson ''{not json'' = Throws"
    "parseExpenses demoJson ''[rent]'' = Parsed [rent]"
    "parseCategories demoJson ''[]'' = Parsed []"
    "parseMonthlyData demoJson ''{legacy}'' = Parsed [(''2023-12'', legacyMonth)]"
    by (simp_all add: demoJson_def)
  have h3: "currentStorage ''categories'' = Some ''null''"
    "currentStorage ''monthlyData'' = Some ''{legacy, current}''"
    by (simp_all add: currentStorage_def)
  have h4: "parseCategories demoJson ''null'' = Falsy"
    "parseMonthlyData demoJson ''{legacy, current}'' =
       Parsed [(''2023-12'', legacyMonth), (''2024-03'', legacyMonth)]"
    by (simp_all add: demoJson_def)
  have m1: "map_of [(''2023-12'', legacyMonth)] ''2023-12'' = Some legacyMonth"
    and m2: "map_of [(''2023-12'', legacyMonth), (''2024-03'', legacyMonth)] ''2024-03'' =
      Some legacyMonth"
    by simp_all
  note T = blobs_load_independently[OF h0, where st = demoStorage and js = demoJson
      and rt = demoRuntime and newId = real]
  note U = blobs_load_independently[OF h0, where st = currentStorage and js = demoJson
      and rt = demoRuntime and newId = real]
  have c1: "recurringIncomes (fst (initializeState demoRuntime demoJson real demoStorage demoBoot)) = []"
    using T[THEN conjunct1] h1(1) h2(1) by blast
  have c2: "recurringExpenses (fst (initializeState demoRuntime demoJson real demoStorage demoBoot)) = [rent]"
    using T[THEN conjunct2, THEN conjunct2, THEN conjunct2, THEN conjunct1] h1(2) h2(2) by blast
  have c3: "categories (fst (initializeState demoRuntime demoJson real demoStorage demoBoot)) = sortCategories demoRuntime []"
    using T[THEN conjunct2, THEN conjunct2, THEN conjunct2, THEN conjunct2, THEN conjunct2,
        THEN conjunct1] h1(3) h2(3) by blast
  have c4: "map_of (monthlyData (fst (initializeState demoRuntime demoJson real demoStorage demoBoot))) ''2023-12'' = Some (migrateMonth legacyMonth)"
    using T[THEN conjunct2, THEN conjunct2, THEN conjunct2, THEN conjunct2, THEN conjunct2,
        THEN conjunct2, THEN conjunct2, THEN conjunct1] h1(4) h2(4) m1 by blast
  have c5: "categories (fst (initializeState demoRuntime demoJson real currentStorage demoBoot)) = sortCategories demoRuntime defaultCategories"
    using U[THEN conjunct2, THEN conjunct2, THEN conjunct2, THEN conjunct2, THEN conjunct1]
      h3(1) h4(1) by blast
  have c6: "map_of (monthlyData (fst (initializeState demoRuntime demoJson real currentStorage demoBoot))) ''2024-03'' = Some (migrateMonth legacyMonth)"
    using U[THEN conjunct2, THEN conjunct2, THEN conjunct2, THEN conjunct2, THEN conjunct2,
        THEN conjunct2, THEN conjunct2, THEN conjunct1] h3(2) h4(2) m2 by blast
  from h0 hs h1 h2 h3 h4 c1 c2 c3 c4 c5 c6 show ?thesis
    by (intro conjI)
qed

section \<open>Creating a recurring template\<close>

lemma submit_add_income_months:
  assumes "formAmount form = Some amt" and "formDescription form \<noteq> []"
    and "editingRecurringTransaction s = None" and "recurringModalType s = income"
  shows "map_of (monthlyData (handleRecurringFormSubmit now newId form s)) k =
     map_option (\<lambda>m. if selectedMonth s \<le> k
        then m\<lparr>realIncome := realIncome m @
               [\<lparr>id' = newId k, description = formDescription form, amount = amt,
                 isRecurring = Some True, recurringId = Some now\<rparr>]\<rparr>
        else m) (map_of (monthlyData s) k)"
  using assms
  by (simp add: handleRecurringFormSubmit_def addLogic_def Let_def map_of_map_keyed cong: if_cong)

lemma submit_add_expense_months:
  assumes "formAmount form = Some amt" and "formDescription form \<noteq> []"
    and "editingRecurringTransaction s = None" and "recurringModalType s = expense"
  shows "map_of (monthlyData (handleRecurringFormSubmit now newId form s)) k =
     map_option (\<lambda>m. if selectedMonth s \<le> k
        then m\<lparr>plannedExpenses := plannedExpenses m @
               [\<lparr>id' = newId k, description = formDescription form, amount = amt,
                 isRecurring = Some True, recurringId = Some now, category = formCategory form\<rparr>]\<rparr>
        else m) (map_of (monthlyData s) k)"
  using assms
  by (simp add: handleRecurringFormSubmit_def addLogic_def Let_def map_of_map_keyed cong: if_cong)

lemma submit_add_stores:
  assumes "formAmount form = Some amt" and "formDescription form \<noteq> []"
    and "editingRecurringTransaction s = None"
  shows "recurringModalType s = income \<Longrightarrow>
           recurringIncomes (handleRecurringFormSubmit now newId form s) =
             recurringIncomes s @ [\<lparr>id' = now, description = formDescription form, amount = amt,
                 isRecurring = None, recurringId = None\<rparr>] \<and>
           recurringExpenses (handleRecurringFormSubmit now newId form s) = recurringExpenses s"
    and "recurringModalType s = expense \<Longrightarrow>
           recurringExpenses (handleRecurringFormSubmit now newId form s) =
             recurringExpenses s @ [\<lparr>id' = now, description = formDescription form, amount = amt,
                 isRecurring = None, recurringId = None, category = formCategory form\<rparr>] \<and>
           recurringIncomes (handleRecurringFormSubmit now newId form s) = recurringIncomes s"
  using assms
  by (simp_all add: handleRecurringFormSubmit_def addLogic_def Let_def)

text \<open>
  Claim C1, amended. A recurring template is created by submitting a valid form (a
  description and an amount that is a number) while no template is being edited; its id
  is \<open>Date.now()\<close>, the pivot is the selected month. After the submission the template
  is the last of its store and every month \<open>k\<close> that is materialized is, when \<open>k\<close> is
  at or after the pivot, the month it was with one new instance at the end of its list
  (\<open>realIncome\<close> for an income, \<open>plannedExpenses\<close> for an expense), which has
  \<open>recurringId\<close> the template's id, \<open>isRecurring = true\<close> and the template's
  description and amount (and category): the month holds one more instance with this
  \<open>recurringId\<close> than before, hence exactly one where it held none. When \<open>k\<close> is before
  the pivot the month is unchanged: it holds the instances with this \<open>recurringId\<close>
  that it held before, hence none where it held none.
\<close>

theorem template_creation_propagates:
  assumes "formAmount form = Some amt" and "formDescription form \<noteq> []"
    and "editingRecurringTransaction s = None"
    and "map_of (monthlyData s) k = Some m"
  shows "\<exists>m'. map_of (monthlyData (handleRecurringFormSubmit now newId form s)) k = Some m' \<and>
     (recurringModalType s = income \<longrightarrow>
        recurringIncomes (handleRecurringFormSubmit now newId form s) =
          recurringIncomes s @ [\<lparr>id' = now, description = formDescription form, amount = amt,
              isRecurring = None, recurringId = None\<rparr>] \<and>
        recurringExpenses (handleRecurringFormSubmit now newId form s) = recurringExpenses s \<and>
        (selectedMonth s \<le> k \<longrightarrow>
           (\<exists>i. m' = m\<lparr>realIncome := realIncome m @ [i]\<rparr> \<and> recurringId i = Some now \<and>
                isRecurring i = Some True \<and> description i = formDescription form \<and> amount i = amt) \<and>
           length (filter (\<lambda>i. recurringId i = Some now) (realIncome m')) =
             Suc (length (filter (\<lambda>i. recurringId i = Some now) (realIncome m))) \<and>
           ((\<forall>i \<in> set (realIncome m). recurringId i \<noteq> Some now) \<longrightarrow>
              length (filter (\<lambda>i. recurringId i = Some now) (realIncome m')) = 1)) \<and>
        (k < selectedMonth s \<longrightarrow> m' = m)) \<and>
     (recurringModalType s = expense \<longrightarrow>
        recurringExpenses (handleRecurringFormSubmit now newId form s) =
          recurringExpenses s @ [\<lparr>id' = now, description = formDescription form, amount = amt,
              isRecurring = None, recurringId = None, category = formCategory form\<rparr>] \<and>
        recurringIncomes (handleRecurringFormSubmit now newId form s) = recurringIncomes s \<and>
        (selectedMonth s \<le> k \<longrightarrow>
           (\<exists>e. m' = m\<lparr>plannedExpenses := plannedExpenses m @ [e]\<rparr> \<and> recurringId e = Some now \<and>
                isRecurring e = Some True \<and> description e = formDescription form \<and> amount e = amt \<and>
                category e = formCategory form) \<and>
           length (filter (\<lambda>e. recurringId e = Some now) (plannedExpenses m')) =
             Suc (length (filter (\<lambda>e. recurringId e = Some now) (plannedExpenses m))) \<and>
           ((\<forall>e \<in> set (plannedExpenses m). recurringId e \<noteq> Some now) \<longrightarrow>
              length (filter (\<lambda>e. recurringId e = Some now) (plannedExpenses m')) = 1)) \<and>
        (k < selectedMonth s \<longrightarrow> m' = m))"
proof (cases "recurringModalType s")
  case income
  show ?thesis
    using income assms(4)
    by (auto simp: submit_add_income_months[OF assms(1-3) income]
        submit_add_stores(1)[OF assms(1-3) income] filter_empty_conv)
next
  case expense
  show ?thesis
    using expense assms(4)
    by (auto simp: submit_add_expense_months[OF assms(1-3) expense]
        submit_add_stores(2)[OF assms(1-3) expense] filter_empty_conv)
qed

text \<open>
  The claim as stated, exactly one instance at or after the pivot and none before it,
  fails where the id that \<open>Date.now()\<close> gives is already the \<open>recurringId\<close> of an
  instance, which the handler does not check: March, the pivot, then holds two such
  instances and February one.
\<close>

theorem template_creation_counterexample:
  "selectedMonth demoState \<le> ''2024-03'' \<and> ''2024-02'' < selectedMonth demoState \<and>
   editingRecurringTransaction demoState = None \<and> recurringModalType demoState = expense \<and>
   map_of (monthlyData (handleRecurringFormSubmit 8 demoIds gymForm demoState)) ''2024-03'' =
     Some \<lparr>realIncome =
             [\<lparr>id' = 7.5, description = ''Salary'', amount = 2500, isRecurring = Some True,
               recurringId = Some 7\<rparr>],
           plannedExpenses =
             [\<lparr>id' = 8.5, description = ''Rent'', amount = 1000, isRecurring = Some True,
               recurringId = Some 8, category = ''Housing''\<rparr>,
              \<lparr>id' = 7, description = ''Gym'', amount = 30, isRecurring = Some True,
               recurringId = Some 8, category = ''Leisure''\<rparr>],
           realExpenses = []\<rparr> \<and>
   map_of (monthlyData (handleRecurringFormSubmit 8 demoIds gymForm demoState)) ''2024-02'' =
     Some \<lparr>realIncome =
             [\<lparr>id' = 7.5, description = ''Salary'', amount = 2500, isRecurring = Some True,
               recurringId = Some 7\<rparr>],
           plannedExpenses =
             [\<lparr>id' = 8.5, description = ''Rent'', amount = 1000, isRecurring = Some True,
               recurringId = Some 8, category = ''Housing''\<rparr>],
           realExpenses = []\<rparr>"
  by (simp add: handleRecurringFormSubmit_def addLogic_def Let_def demoState_def march_def
      salary_def rent_def gymForm_def demoIds_def)

theorem template_creation_propagates_witness:
  "formAmount gymForm = Some 30 \<and> formDescription gymForm \<noteq> [] \<and>
   editingRecurringTransaction demoState = None \<and> recurringModalType demoState = expense \<and>
   editingRecurringTransaction incomeModalState = None \<and>
   recurringModalType incomeModalState = income \<and>
   map_of (monthlyData demoState) ''2024-03'' = Some march \<and>
   map_of (monthlyData demoState) ''2024-02'' = Some march \<and>
   map_of (monthlyData incomeModalState) ''2024-03'' = Some march \<and>
   selectedMonth demoState \<le> ''2024-03'' \<and> ''2024-02'' < selectedMonth demoState \<and>
   selectedMonth incomeModalState \<le> ''2024-03'' \<and>
   map (recurringId) (plannedExpenses march) = [Some 8] \<and>
   map (recurringId) (realIncome march) = [Some 7] \<and>
   (\<exists>m'. map_of (monthlyData (handleRecurringFormSubmit 9 demoIds gymForm demoState)) ''2024-03'' =
           Some m' \<and>
      (\<exists>e. m' = march\<lparr>plannedExpenses := plannedExpenses march @ [e]\<rparr> \<and> recurringId e = Some 9 \<and>
           isRecurring e = Some True \<and> description e = ''Gym'' \<and> amount e = 30 \<and>
           category e = ''Leisure'') \<and>
      length (filter (\<lambda>e. recurringId e = Some 9) (plannedExpenses m')) = 1) \<and>
   map_of (monthlyData (handleRecurringFormSubmit 9 demoIds gymForm demoState)) ''2024-02'' =
     Some march \<and>
   (\<exists>m'. map_of (monthlyData (handleRecurringFormSubmit 9 demoIds gymForm incomeModalState)) ''2024-03'' =
           Some m' \<and>
      (\<exists>i. m' = march\<lparr>realIncome := realIncome march @ [i]\<rparr> \<and> recurringId i = Some 9 \<and>
           isRecurring i = Some True \<and> description i = ''Gym'' \<and> amount i = 30) \<and>
      length (filter (\<lambda>i. recurringId i = Some 9) (realIncome m')) = 1) \<and>
   recurringIncomes (handleRecurringFormSubmit 9 demoIds gymForm incomeModalState) =
     [salary, \<lparr>id' = 9, description = ''Gym'', amount = 30, isRecurring = None, recurringId = None\<rparr>]"
proof -
  have h1: "formAmount gymForm = Some 30" and h2: "formDescription gymForm \<noteq> []"
    by (simp_all add: gymForm_def)
  have h3: "editingRecurringTransaction demoState = None"
    and h3': "editingRecurringTransaction incomeModalState = None"
    by (simp_all add: demoState_def incomeModalState_def)
  have t: "recurringModalType demoState = expense" "recurringModalType incomeModalState = income"
    by (simp_all add: demoState_def incomeModalState_def)
  have k: "map_of (monthlyData demoState) ''2024-03'' = Some march"
    "map_of (monthlyData demoState) ''2024-02'' = Some march"
    "map_of (monthlyData incomeModalState) ''2024-03'' = Some march"
    by (simp_all add: demoState_def incomeModalState_def)
  have p: "selectedMonth demoState \<le> ''2024-03''" "''2024-02'' < selectedMonth demoState"
    "selectedMonth incomeModalState \<le> ''2024-03''"
    by (simp_all add: demoState_def incomeModalState_def)
  have r: "map (recurringId) (plannedExpenses march) = [Some 8]"
    "map (recurringId) (realIncome march) = [Some 7]"
    by (simp_all add: march_def salary_def rent_def)
  have f: "\<forall>e \<in> set (plannedExpenses march). recurringId e \<noteq> Some 9"
    "\<forall>i \<in> set (realIncome march). recurringId i \<noteq> Some 9"
    by (simp_all add: march_def salary_def rent_def)
  have g: "formDescription gymForm = ''Gym''" "formCategory gymForm = ''Leisure''"
    by (simp_all add: gymForm_def)
  have s: "recurringIncomes incomeModalState = [salary]"
    by (simp add: incomeModalState_def demoState_def)
  have c1: "\<exists>m'. map_of (monthlyData (handleRecurringFormSubmit 9 demoIds gymForm demoState)) ''2024-03'' =
           Some m' \<and>
      (\<exists>e. m' = march\<lparr>plannedExpenses := plannedExpenses march @ [e]\<rparr> \<and> recurringId e = Some 9 \<and>
           isRecurring e = Some True \<and> description e = ''Gym'' \<and> amount e = 30 \<and>
           category e = ''Leisure'') \<and>
      length (filter (\<lambda>e. recurringId e = Some 9) (plannedExpenses m')) = 1"
    using template_creation_propagates[OF h1 h2 h3 k(1), of 9 demoIds] t(1) p(1) f(1)
    unfolding g by blast
  have c2: "map_of (monthlyData (handleRecurringFormSubmit 9 demoIds gymForm demoState)) ''2024-02'' =
     Some march"
    using template_creation_propagates[OF h1 h2 h3 k(2), of 9 demoIds] t(1) p(2) by auto
  note I = template_creation_propagates[OF h1 h2 h3' k(3), of 9 demoIds]
  have c3: "\<exists>m'. map_of (monthlyData (handleRecurringFormSubmit 9 demoIds gymForm incomeModalState)) ''2024-03'' =
           Some m' \<and>
      (\<exists>i. m' = march\<lparr>realIncome := realIncome march @ [i]\<rparr> \<and> recurringId i = Some 9 \<and>
           isRecurring i = Some True \<and> description i = ''Gym'' \<and> amount i = 30) \<and>
      length (filter (\<lambda>i. recurringId i = Some 9) (realIncome m')) = 1"
    using I t(2) p(3) f(2) unfolding g by blast
  have c4: "recurringIncomes (handleRecurringFormSubmit 9 demoIds gymForm incomeModalState) =
     [salary, \<lparr>id' = 9, description = ''Gym'', amount = 30, isRecurring = None, recurringId = None\<rparr>]"
    using I t(2) unfolding g s by auto
  from h1 h2 h3 t(1) h3' t(2) k p r c1 c2 c3 c4 show ?thesis
    by (intro conjI)
qed

section \<open>Deleting a recurring template\<close>

lemma delete_months:
  "map_of (monthlyData (handleDeleteRecurring ident type s)) k =
     map_option (\<lambda>m. if selectedMonth s \<le> k then
          (if type = income
           then m\<lparr>realIncome := filter (\<lambda>i. recurringId i \<noteq> Some ident) (realIncome m)\<rparr>
           else m\<lparr>plannedExpenses := filter (\<lambda>e. recurringId e \<noteq> Some ident) (plannedExpenses m)\<rparr>)
        else m) (map_of (monthlyData s) k)"
  by (simp add: handleDeleteRecurring_def Let_def map_of_map_keyed)

lemma delete_stores:
  "recurringIncomes (handleDeleteRecurring ident type s) =
     (if type = income then filter (\<lambda>i. id' i \<noteq> ident) (recurringIncomes s) else recurringIncomes s)"
  "recurringExpenses (handleDeleteRecurring ident type s) =
     (if type = income then recurringExpenses s else filter (\<lambda>e. id' e \<noteq> ident) (recurringExpenses s))"
  by (simp_all add: handleDeleteRecurring_def Let_def)

text \<open>
  Claim C3. \<open>handleDeleteRecurring\<close>, with the selected month as pivot, removes the
  template from its store (no template with that id is left there); in every
  materialized month at or after the pivot it removes all the instances with that
  \<open>recurringId\<close>, from \<open>realIncome\<close> for an income and from \<open>plannedExpenses\<close> for an
  expense, and nothing else of the month; every materialized month before the pivot is
  unchanged, its instances of the template included.
\<close>

theorem template_deletion_propagates:
  "(type = income \<longrightarrow>
      recurringIncomes (handleDeleteRecurring ident type s) =
        filter (\<lambda>i. id' i \<noteq> ident) (recurringIncomes s) \<and>
      (\<forall>t \<in> set (recurringIncomes (handleDeleteRecurring ident type s)). id' t \<noteq> ident)) \<and>
   (type = expense \<longrightarrow>
      recurringExpenses (handleDeleteRecurring ident type s) =
        filter (\<lambda>e. id' e \<noteq> ident) (recurringExpenses s) \<and>
      (\<forall>t \<in> set (recurringExpenses (handleDeleteRecurring ident type s)). id' t \<noteq> ident)) \<and>
   (\<forall>k m. map_of (monthlyData s) k = Some m \<longrightarrow>
      (\<exists>m'. map_of (monthlyData (handleDeleteRecurring ident type s)) k = Some m' \<and>
         (selectedMonth s \<le> k \<and> type = income \<longrightarrow>
            m' = m\<lparr>realIncome := filter (\<lambda>i. recurringId i \<noteq> Some ident) (realIncome m)\<rparr> \<and>
            (\<forall>i \<in> set (realIncome m'). recurringId i \<noteq> Some ident)) \<and>
         (selectedMonth s \<le> k \<and> type = expense \<longrightarrow>
            m' = m\<lparr>plannedExpenses :=
                    filter (\<lambda>e. recurringId e \<noteq> Some ident) (plannedExpenses m)\<rparr> \<and>
            (\<forall>e \<in> set (plannedExpenses m'). recurringId e \<noteq> Some ident)) \<and>
         (k < selectedMonth s \<longrightarrow> m' = m)))"
proof (intro conjI allI impI)
  fix k m
  assume "map_of (monthlyData s) k = Some m"
  then show "\<exists>m'. map_of (monthlyData (handleDeleteRecurring ident type s)) k = Some m' \<and>
         (selectedMonth s \<le> k \<and> type = income \<longrightarrow>
            m' = m\<lparr>realIncome := filter (\<lambda>i. recurringId i \<noteq> Some ident) (realIncome m)\<rparr> \<and>
            (\<forall>i \<in> set (realIncome m'). recurringId i \<noteq> Some ident)) \<and>
         (selectedMonth s \<le> k \<and> type = expense \<longrightarrow>
            m' = m\<lparr>plannedExpenses :=
                    filter (\<lambda>e. recurringId e \<noteq> Some ident) (plannedExpenses m)\<rparr> \<and>
            (\<forall>e \<in> set (plannedExpenses m'). recurringId e \<noteq> Some ident)) \<and>
         (k < selectedMonth s \<longrightarrow> m' = m)"
    by (auto simp: delete_months)
qed (simp_all add: delete_stores)

theorem template_deletion_propagates_witness:
  "map_of (monthlyData demoState) ''2024-03'' = Some march \<and>
   map_of (monthlyData demoState) ''2024-02'' = Some march \<and>
   selectedMonth demoState \<le> ''2024-03'' \<and> ''2024-02'' < selectedMonth demoState \<and>
   recurringExpenses (handleDeleteRecurring 8 expense demoState) = [] \<and>
   map_of (monthlyData (handleDeleteRecurring 8 expense demoState)) ''2024-03'' =
     Some (march\<lparr>plannedExpenses := []\<rparr>) \<and>
   map_of (monthlyData (handleDeleteRecurring 8 expense demoState)) ''2024-02'' = Some march"
proof -
  have h1: "map_of (monthlyData demoState) ''2024-03'' = Some march"
    and h2: "map_of (monthlyData demoState) ''2024-02'' = Some march"
    and h3: "selectedMonth demoState \<le> ''2024-03''"
    and h4: "''2024-02'' < selectedMonth demoState"
    by (simp_all add: demoState_def)
  have f1: "filter (\<lambda>e. id' e \<noteq> 8) (recurringExpenses demoState) = []"
    by (simp add: demoState_def rent_def)
  have f2: "filter (\<lambda>e. recurringId e \<noteq> Some 8) (plannedExpenses march) = []"
    by (simp add: march_def rent_def)
  note T = template_deletion_propagates[of expense 8 demoState]
  have c1: "recurringExpenses (handleDeleteRecurring 8 expense demoState) = []"
    using T[THEN conjunct2, THEN conjunct1] f1 by simp
  have c2: "map_of (monthlyData (handleDeleteRecurring 8 expense demoState)) ''2024-03'' =
     Some (march\<lparr>plannedExpenses := []\<rparr>)"
    using T[THEN conjunct2, THEN conjunct2, rule_format, OF h1] h3 f2
    by auto
  have c3: "map_of (monthlyData (handleDeleteRecurring 8 expense demoState)) ''2024-02'' = Some march"
    using T[THEN conjunct2, THEN conjunct2, rule_format, OF h2] h4 by auto
  from h1 h2 h3 h4 c1 c2 c3 show ?thesis by (intro conjI)
qed

section \<open>Updating a recurring template\<close>

lemma updateAtFound_Cons:
  "updateAtFound P f (x # xs) = (if P x then f x # xs else x # updateAtFound P f xs)"
  by (simp add: updateAtFound_def split: option.splits)

lemma updateAtFound_Nil: "updateAtFound P f [] = []"
  by (simp add: updateAtFound_def)

lemma length_updateAtFound: "length (updateAtFound P f xs) = length xs"
  by (induction xs) (simp_all add: updateAtFound_Cons updateAtFound_Nil)

lemma nth_updateAtFound:
  "j < length xs \<Longrightarrow>
   updateAtFound P f xs ! j = (if P (xs ! j) \<and> (\<forall>l<j. \<not> P (xs ! l)) then f (xs ! j) else xs ! j)"
proof (induction xs arbitrary: j)
  case Nil
  then show ?case by simp
next
  case (Cons x xs)
  show ?case
  proof (cases j)
    case 0
    then show ?thesis by (simp add: updateAtFound_Cons)
  next
    case (Suc n)
    with Cons.prems have n: "n < length xs" by simp
    show ?thesis
    proof (cases "P x")
      case True
      have a: "updateAtFound P f (x # xs) ! j = (x # xs) ! j"
        using True Suc by (simp add: updateAtFound_Cons)
      have b: "\<not> (\<forall>l<j. \<not> P ((x # xs) ! l))"
      proof
        assume "\<forall>l<j. \<not> P ((x # xs) ! l)"
        then have "\<not> P ((x # xs) ! 0)" using Suc by blast
        with True show False by simp
      qed
      show ?thesis unfolding a using b by (simp only: simp_thms if_False)
    next
      case False
      have a: "updateAtFound P f (x # xs) ! j = updateAtFound P f xs ! n"
        using False Suc by (simp add: updateAtFound_Cons)
      have b: "(x # xs) ! j = xs ! n"
        using Suc by simp
      have c: "(\<forall>l<j. \<not> P ((x # xs) ! l)) \<longleftrightarrow> (\<forall>l<n. \<not> P (xs ! l))"
        using Suc False by (auto simp: less_Suc_eq_0_disj)
      show ?thesis unfolding a b c by (rule Cons.IH[OF n])
    qed
  qed
qed

lemma updateAtFound_absent: "\<forall>x \<in> set xs. \<not> P x \<Longrightarrow> updateAtFound P f xs = xs"
  by (induction xs) (simp_all add: updateAtFound_Cons updateAtFound_Nil)

lemma update_months:
  assumes "formAmount form = Some amt" and "formDescription form \<noteq> []"
    and "editingRecurringTransaction s = Some editing"
  shows "map_of (monthlyData (handleRecurringFormSubmit now newId form s)) k =
     map_option (\<lambda>m. if selectedMonth s \<le> k then
          (if editingType editing = income
           then m\<lparr>realIncome :=
                    updateAtFound (\<lambda>i. recurringId i = Some (editingId editing))
                      (\<lambda>i. i\<lparr>description := formDescription form, amount := amt\<rparr>) (realIncome m)\<rparr>
           else m\<lparr>plannedExpenses :=
                    updateAtFound (\<lambda>e. recurringId e = Some (editingId editing))
                      (\<lambda>e. e\<lparr>description := formDescription form, amount := amt,
                               category := formCategory form\<rparr>) (plannedExpenses m)\<rparr>)
        else m) (map_of (monthlyData s) k)"
  using assms
  by (simp add: handleRecurringFormSubmit_def updateLogic_def Let_def map_of_map_keyed cong: if_cong)

lemma update_stores:
  assumes "formAmount form = Some amt" and "formDescription form \<noteq> []"
    and "editingRecurringTransaction s = Some editing"
  shows "recurringIncomes (handleRecurringFormSubmit now newId form s) =
     (if editingType editing = income
      then updateAtFound (\<lambda>i. id' i = editingId editing)
             (\<lambda>i. i\<lparr>description := formDescription form, amount := amt\<rparr>) (recurringIncomes s)
      else recurringIncomes s)"
    and "recurringExpenses (handleRecurringFormSubmit now newId form s) =
     (if editingType editing = income then recurringExpenses s
      else updateAtFound (\<lambda>e. id' e = editingId editing)
             (\<lambda>e. e\<lparr>description := formDescription form, amount := amt,
                      category := formCategory form\<rparr>) (recurringExpenses s))"
    and "categories (handleRecurringFormSubmit now newId form s) = categories s"
    and "selectedMonth (handleRecurringFormSubmit now newId form s) = selectedMonth s"
  using assms
  by (simp_all add: handleRecurringFormSubmit_def updateLogic_def Let_def)

lemma edit_examples:
  "formAmount raiseForm = Some 2600" "formDescription raiseForm \<noteq> []"
  "editingRecurringTransaction twiceState = Some (EditingIncome salary)"
  "editingRecurringTransaction orphanState = Some (EditingIncome salary)"
  "editingRecurringTransaction editingState = Some (EditingIncome salary)"
  by (simp_all add: raiseForm_def twiceState_def orphanState_def editingState_def)

text \<open>
  Claim C2, amended. Submitting a valid form while a template is being edited, with the
  selected month as pivot, gives the new description and amount (and category, for an
  expense) to the first template of the matching store that has the edited id, and, in
  every materialized month at or after the pivot, to the first instance of the matching
  list whose \<open>recurringId\<close> is that id. Templates with another id, instances with
  another \<open>recurringId\<close>, the other lists of the month and the other store are
  unchanged, and so is every materialized month before the pivot.
\<close>

theorem template_update_first_instance:
  assumes "formAmount form = Some amt" and "formDescription form \<noteq> []"
    and "editingRecurringTransaction s = Some editing"
    and "map_of (monthlyData s) k = Some m"
  shows "\<exists>m'. map_of (monthlyData (handleRecurringFormSubmit now newId form s)) k = Some m' \<and>
     (k < selectedMonth s \<longrightarrow> m' = m) \<and>
     (selectedMonth s \<le> k \<and> editingType editing = income \<longrightarrow>
        plannedExpenses m' = plannedExpenses m \<and> realExpenses m' = realExpenses m \<and>
        length (realIncome m') = length (realIncome m) \<and>
        (\<forall>j < length (realIncome m).
           (recurringId (realIncome m ! j) = Some (editingId editing) \<and>
            (\<forall>l<j. recurringId (realIncome m ! l) \<noteq> Some (editingId editing)) \<longrightarrow>
              realIncome m' ! j =
                (realIncome m ! j)\<lparr>description := formDescription form, amount := amt\<rparr>) \<and>
           (recurringId (realIncome m ! j) \<noteq> Some (editingId editing) \<longrightarrow>
              realIncome m' ! j = realIncome m ! j))) \<and>
     (selectedMonth s \<le> k \<and> editingType editing = expense \<longrightarrow>
        realIncome m' = realIncome m \<and> realExpenses m' = realExpenses m \<and>
        length (plannedExpenses m') = length (plannedExpenses m) \<and>
        (\<forall>j < length (plannedExpenses m).
           (recurringId (plannedExpenses m ! j) = Some (editingId editing) \<and>
            (\<forall>l<j. recurringId (plannedExpenses m ! l) \<noteq> Some (editingId editing)) \<longrightarrow>
              plannedExpenses m' ! j =
                (plannedExpenses m ! j)\<lparr>description := formDescription form, amount := amt,
                   category := formCategory form\<rparr>) \<and>
           (recurringId (plannedExpenses m ! j) \<noteq> Some (editingId editing) \<longrightarrow>
              plannedExpenses m' ! j = plannedExpenses m ! j))) \<and>
     (editingType editing = income \<longrightarrow>
        recurringExpenses (handleRecurringFormSubmit now newId form s) = recurringExpenses s \<and>
        length (recurringIncomes (handleRecurringFormSubmit now newId form s)) =
          length (recurringIncomes s) \<and>
        (\<forall>j < length (recurringIncomes s).
           (id' (recurringIncomes s ! j) = editingId editing \<and>
            (\<forall>l<j. id' (recurringIncomes s ! l) \<noteq> editingId editing) \<longrightarrow>
              recurringIncomes (handleRecurringFormSubmit now newId form s) ! j =
                (recurringIncomes s ! j)\<lparr>description := formDescription form, amount := amt\<rparr>) \<and>
           (id' (recurringIncomes s ! j) \<noteq> editingId editing \<longrightarrow>
              recurringIncomes (handleRecurringFormSubmit now newId form s) ! j =
                recurringIncomes s ! j))) \<and>
     (editingType editing = expense \<longrightarrow>
        recurringIncomes (handleRecurringFormSubmit now newId form s) = recurringIncomes s \<and>
        length (recurringExpenses (handleRecurringFormSubmit now newId form s)) =
          length (recurringExpenses s) \<and>
        (\<forall>j < length (recurringExpenses s).
           (id' (recurringExpenses s ! j) = editingId editing \<and>
            (\<forall>l<j. id' (recurringExpenses s ! l) \<noteq> editingId editing) \<longrightarrow>
              recurringExpenses (handleRecurringFormSubmit now newId form s) ! j =
                (recurringExpenses s ! j)\<lparr>description := formDescription form, amount := amt,
                   category := formCategory form\<rparr>) \<and>
           (id' (recurringExpenses s ! j) \<noteq> editingId editing \<longrightarrow>
              recurringExpenses (handleRecurringFormSubmit now newId form s) ! j =
                recurringExpenses s ! j)))"
proof (cases "editingType editing")
  case income
  show ?thesis
    using assms(4) income
    by (simp add: update_months[OF assms(1-3)] update_stores[OF assms(1-3)]
        length_updateAtFound nth_updateAtFound not_le)
next
  case expense
  show ?thesis
    using assms(4) expense
    by (simp add: update_months[OF assms(1-3)] update_stores[OF assms(1-3)]
        length_updateAtFound nth_updateAtFound not_le)
qed

text \<open>
  The claim as stated, that every instance with the \<open>recurringId\<close> is updated, fails
  where a month holds two of them: \<open>findIndex\<close> stops at the first.
\<close>

theorem template_update_counterexample:
  "selectedMonth twiceState \<le> ''2024-03'' \<and>
   editingRecurringTransaction twiceState = Some (EditingIncome salary) \<and> id' salary = 7 \<and>
   map_of (monthlyData (handleRecurringFormSubmit 0 demoIds raiseForm twiceState)) ''2024-03'' =
     Some \<lparr>realIncome =
             [\<lparr>id' = 7.5, description = ''Pay'', amount = 2600, isRecurring = Some True,
               recurringId = Some 7\<rparr>,
              \<lparr>id' = 7.25, description = ''Salary'', amount = 2500, isRecurring = Some True,
               recurringId = Some 7\<rparr>],
           plannedExpenses =
             [\<lparr>id' = 8.5, description = ''Rent'', amount = 1000, isRecurring = Some True,
               recurringId = Some 8, category = ''Housing''\<rparr>],
           realExpenses = []\<rparr>"
  by (simp add: update_months[OF edit_examples(1,2,3)] updateAtFound_def)
    (simp add: twiceState_def editingState_def demoState_def march_def salary_def rent_def raiseForm_def)

theorem template_update_first_instance_witness:
  "formAmount raiseForm = Some 2600 \<and> formDescription raiseForm \<noteq> [] \<and>
   editingRecurringTransaction editingState = Some (EditingIncome salary) \<and>
   map_of (monthlyData editingState) ''2024-03'' = Some march \<and>
   map_of (monthlyData editingState) ''2024-02'' = Some march \<and>
   selectedMonth editingState \<le> ''2024-03'' \<and> ''2024-02'' < selectedMonth editingState \<and>
   map_of (monthlyData (handleRecurringFormSubmit 0 demoIds raiseForm editingState)) ''2024-02'' =
     Some march \<and>
   (\<exists>m'. map_of (monthlyData (handleRecurringFormSubmit 0 demoIds raiseForm editingState)) ''2024-03'' =
           Some m' \<and>
      plannedExpenses m' = plannedExpenses march \<and>
      realIncome m' ! 0 = (realIncome march ! 0)\<lparr>description := ''Pay'', amount := 2600\<rparr>) \<and>
   recurringIncomes (handleRecurringFormSubmit 0 demoIds raiseForm editingState) ! 0 =
     salary\<lparr>description := ''Pay'', amount := 2600\<rparr>"
proof -
  have h: "map_of (monthlyData editingState) ''2024-03'' = Some march"
    "map_of (monthlyData editingState) ''2024-02'' = Some march"
    "selectedMonth editingState \<le> ''2024-03''" "''2024-02'' < selectedMonth editingState"
    by (simp_all add: editingState_def demoState_def)
  have e: "editingType (EditingIncome salary) = income" "editingId (EditingIncome salary) = 7"
    "formDescription raiseForm = ''Pay''"
    by (simp_all add: salary_def raiseForm_def)
  have i: "0 < length (realIncome march)" "recurringId (realIncome march ! 0) = Some 7"
    "0 < length (recurringIncomes editingState)" "id' (recurringIncomes editingState ! 0) = 7"
    "recurringIncomes editingState ! 0 = salary"
    by (simp_all add: march_def salary_def editingState_def demoState_def)
  have c1: "map_of (monthlyData (handleRecurringFormSubmit 0 demoIds raiseForm editingState)) ''2024-02'' =
     Some march"
    using template_update_first_instance[OF edit_examples(1,2,5) h(2), of 0 demoIds] h(4) by auto
  note T = template_update_first_instance[OF edit_examples(1,2,5) h(1), of 0 demoIds]
  have c2: "\<exists>m'. map_of (monthlyData (handleRecurringFormSubmit 0 demoIds raiseForm editingState)) ''2024-03'' =
           Some m' \<and>
      plannedExpenses m' = plannedExpenses march \<and>
      realIncome m' ! 0 = (realIncome march ! 0)\<lparr>description := ''Pay'', amount := 2600\<rparr>"
    using T h(3) e i(1,2) by auto
  have c3: "recurringIncomes (handleRecurringFormSubmit 0 demoIds raiseForm editingState) ! 0 =
     salary\<lparr>description := ''Pay'', amount := 2600\<rparr>"
    using T e i(3,4,5) by auto
  from edit_examples(1,2,5) h c1 c2 c3 show ?thesis by (intro conjI)
qed

text \<open>
  Claim C6, amended. When no template with the edited id is in the matching store, the
  update reports no error: the submission completes as every valid submission does and
  ends the editing. It leaves both template stores, the categories, the selected month
  and the month keys as they are, and it changes nothing in the ledgers but this: in a
  materialized month at or after the pivot, the first instance of the matching list
  whose \<open>recurringId\<close> is the edited id receives the new description and amount (and
  category, for an expense). Every other instance and the other lists of that month are
  unchanged, a month that holds no such instance is unchanged, and so is every
  materialized month before the pivot.
\<close>

theorem update_without_template:
  assumes "formAmount form = Some amt" and "formDescription form \<noteq> []"
    and "editingRecurringTransaction s = Some editing"
    and "editingType editing = income \<longrightarrow> (\<forall>t \<in> set (recurringIncomes s). id' t \<noteq> editingId editing)"
    and "editingType editing = expense \<longrightarrow> (\<forall>t \<in> set (recurringExpenses s). id' t \<noteq> editingId editing)"
  shows "recurringIncomes (handleRecurringFormSubmit now newId form s) = recurringIncomes s \<and>
     recurringExpenses (handleRecurringFormSubmit now newId form s) = recurringExpenses s \<and>
     categories (handleRecurringFormSubmit now newId form s) = categories s \<and>
     selectedMonth (handleRecurringFormSubmit now newId form s) = selectedMonth s \<and>
     editingRecurringTransaction (handleRecurringFormSubmit now newId form s) = None \<and>
     map fst (monthlyData (handleRecurringFormSubmit now newId form s)) = map fst (monthlyData s) \<and>
     (\<forall>k m. map_of (monthlyData s) k = Some m \<longrightarrow>
        (\<exists>m'. map_of (monthlyData (handleRecurringFormSubmit now newId form s)) k = Some m' \<and>
           (k < selectedMonth s \<longrightarrow> m' = m) \<and>
           (selectedMonth s \<le> k \<and> editingType editing = income \<longrightarrow>
              plannedExpenses m' = plannedExpenses m \<and> realExpenses m' = realExpenses m \<and>
              length (realIncome m') = length (realIncome m) \<and>
              (\<forall>j < length (realIncome m).
                 realIncome m' ! j =
                   (if recurringId (realIncome m ! j) = Some (editingId editing) \<and>
                       (\<forall>l<j. recurringId (realIncome m ! l) \<noteq> Some (editingId editing))
                    then (realIncome m ! j)\<lparr>description := formDescription form, amount := amt\<rparr>
                    else realIncome m ! j)) \<and>
              ((\<forall>i \<in> set (realIncome m). recurringId i \<noteq> Some (editingId editing)) \<longrightarrow>
                 m' = m)) \<and>
           (selectedMonth s \<le> k \<and> editingType editing = expense \<longrightarrow>
              realIncome m' = realIncome m \<and> realExpenses m' = realExpenses m \<and>
              length (plannedExpenses m') = length (plannedExpenses m) \<and>
              (\<forall>j < length (plannedExpenses m).
                 plannedExpenses m' ! j =
                   (if recurringId (plannedExpenses m ! j) = Some (editingId editing) \<and>
                       (\<forall>l<j. recurringId (plannedExpenses m ! l) \<noteq> Some (editingId editing))
                    then (plannedExpenses m ! j)\<lparr>description := formDescription form,
                           amount := amt, category := formCategory form\<rparr>
                    else plannedExpenses m ! j)) \<and>
              ((\<forall>e \<in> set (plannedExpenses m). recurringId e \<noteq> Some (editingId editing)) \<longrightarrow>
                 m' = m))))"
proof (intro conjI allI impI)
  show "recurringIncomes (handleRecurringFormSubmit now newId form s) = recurringIncomes s"
    using assms(4) by (cases "editingType editing")
      (simp_all add: update_stores[OF assms(1-3)] updateAtFound_absent)
  show "recurringExpenses (handleRecurringFormSubmit now newId form s) = recurringExpenses s"
    using assms(5) by (cases "editingType editing")
      (simp_all add: update_stores[OF assms(1-3)] updateAtFound_absent)
  show "categories (handleRecurringFormSubmit now newId form s) = categories s"
    by (simp add: update_stores[OF assms(1-3)])
  show "selectedMonth (handleRecurringFormSubmit now newId form s) = selectedMonth s"
    by (simp add: update_stores[OF assms(1-3)])
  show "editingRecurringTransaction (handleRecurringFormSubmit now newId form s) = None"
    using assms(1-3) by (simp add: handleRecurringFormSubmit_def)
  show "map fst (monthlyData (handleRecurringFormSubmit now newId form s)) = map fst (monthlyData s)"
    using assms(1-3)
    by (simp add: handleRecurringFormSubmit_def updateLogic_def Let_def comp_def split_beta)
  fix k m
  assume m: "map_of (monthlyData s) k = Some m"
  show "\<exists>m'. map_of (monthlyData (handleRecurringFormSubmit now newId form s)) k = Some m' \<and>
           (k < selectedMonth s \<longrightarrow> m' = m) \<and>
           (selectedMonth s \<le> k \<and> editingType editing = income \<longrightarrow>
              plannedExpenses m' = plannedExpenses m \<and> realExpenses m' = realExpenses m \<and>
              length (realIncome m') = length (realIncome m) \<and>
              (\<forall>j < length (realIncome m).
                 realIncome m' ! j =
                   (if recurringId (realIncome m ! j) = Some (editingId editing) \<and>
                       (\<forall>l<j. recurringId (realIncome m ! l) \<noteq> Some (editingId editing))
                    then (realIncome m ! j)\<lparr>description := formDescription form, amount := amt\<rparr>
                    else realIncome m ! j)) \<and>
              ((\<forall>i \<in> set (realIncome m). recurringId i \<noteq> Some (editingId editing)) \<longrightarrow>
                 m' = m)) \<and>
           (selectedMonth s \<le> k \<and> editingType editing = expense \<longrightarrow>
              realIncome m' = realIncome m \<and> realExpenses m' = realExpenses m \<and>
              length (plannedExpenses m') = length (plannedExpenses m) \<and>
              (\<forall>j < length (plannedExpenses m).
                 plannedExpenses m' ! j =
                   (if recurringId (plannedExpenses m ! j) = Some (editingId editing) \<and>
                       (\<forall>l<j. recurringId (plannedExpenses m ! l) \<noteq> Some (editingId editing))
                    then (plannedExpenses m ! j)\<lparr>description := formDescription form,
                           amount := amt, category := formCategory form\<rparr>
                    else plannedExpenses m ! j)) \<and>
              ((\<forall>e \<in> set (plannedExpenses m). recurringId e \<noteq> Some (editingId editing)) \<longrightarrow>
                 m' = m))"
    using m
    by (cases "editingType editing")
      (simp_all add: update_months[OF assms(1-3)] length_updateAtFound nth_updateAtFound
        updateAtFound_absent not_le)
qed

text \<open>
  The claim as stated, that no ledger is changed then, fails: the template of the salary
  is gone, the March ledger still holds its instance, and the submission rewrites that
  instance, since the loop over the months does not depend on the template being found.
\<close>

theorem update_without_template_counterexample:
  "editingRecurringTransaction orphanState = Some (EditingIncome salary) \<and> id' salary = 7 \<and>
   recurringIncomes orphanState = [bonus] \<and> id' bonus = 5 \<and>
   selectedMonth orphanState \<le> ''2024-03'' \<and>
   recurringIncomes (handleRecurringFormSubmit 0 demoIds raiseForm orphanState) = [bonus] \<and>
   map_of (monthlyData orphanState) ''2024-03'' =
     Some \<lparr>realIncome =
             [\<lparr>id' = 7.5, description = ''Salary'', amount = 2500, isRecurring = Some True,
               recurringId = Some 7\<rparr>],
           plannedExpenses =
             [\<lparr>id' = 8.5, description = ''Rent'', amount = 1000, isRecurring = Some True,
               recurringId = Some 8, category = ''Housing''\<rparr>],
           realExpenses = []\<rparr> \<and>
   map_of (monthlyData (handleRecurringFormSubmit 0 demoIds raiseForm orphanState)) ''2024-03'' =
     Some \<lparr>realIncome =
             [\<lparr>id' = 7.5, description = ''Pay'', amount = 2600, isRecurring = Some True,
               recurringId = Some 7\<rparr>],
           plannedExpenses =
             [\<lparr>id' = 8.5, description = ''Rent'', amount = 1000, isRecurring = Some True,
               recurringId = Some 8, category = ''Housing''\<rparr>],
           realExpenses = []\<rparr> \<and>
   monthlyData (handleRecurringFormSubmit 0 demoIds raiseForm orphanState) \<noteq> monthlyData orphanState"
  by (simp add: handleRecurringFormSubmit_def updateLogic_def updateAtFound_def Let_def
      orphanState_def editingState_def demoState_def march_def april_def salary_def bonus_def
      rent_def raiseForm_def)

theorem update_without_template_witness:
  "formAmount raiseForm = Some 2600 \<and> formDescription raiseForm \<noteq> [] \<and>
   editingRecurringTransaction orphanState = Some (EditingIncome salary) \<and>
   editingType (EditingIncome salary) = income \<and> editingId (EditingIncome salary) = 7 \<and>
   map id' (recurringIncomes orphanState) = [5] \<and>
   map_of (monthlyData orphanState) ''2024-02'' = Some march \<and>
   map_of (monthlyData orphanState) ''2024-03'' = Some march \<and>
   map_of (monthlyData orphanState) ''2024-04'' = Some april \<and>
   ''2024-02'' < selectedMonth orphanState \<and> selectedMonth orphanState \<le> ''2024-03'' \<and>
   selectedMonth orphanState \<le> ''2024-04'' \<and>
   map recurringId (realIncome march) = [Some 7] \<and> map recurringId (realIncome april) = [Some 5] \<and>
   recurringIncomes (handleRecurringFormSubmit 0 demoIds raiseForm orphanState) =
     recurringIncomes orphanState \<and>
   recurringExpenses (handleRecurringFormSubmit 0 demoIds raiseForm orphanState) =
     recurringExpenses orphanState \<and>
   editingRecurringTransaction (handleRecurringFormSubmit 0 demoIds raiseForm orphanState) = None \<and>
   map_of (monthlyData (handleRecurringFormSubmit 0 demoIds raiseForm orphanState)) ''2024-02'' =
     Some march \<and>
   map_of (monthlyData (handleRecurringFormSubmit 0 demoIds raiseForm orphanState)) ''2024-04'' =
     Some april \<and>
   (\<exists>m'. map_of (monthlyData (handleRecurringFormSubmit 0 demoIds raiseForm orphanState)) ''2024-03'' =
           Some m' \<and>
      plannedExpenses m' = plannedExpenses march \<and> realExpenses m' = realExpenses march \<and>
      length (realIncome m') = length (realIncome march) \<and>
      realIncome m' ! 0 = (realIncome march ! 0)\<lparr>description := ''Pay'', amount := 2600\<rparr>)"
proof -
  have e: "editingType (EditingIncome salary) = income" "editingId (EditingIncome salary) = 7"
    "formDescription raiseForm = ''Pay''"
    by (simp_all add: salary_def raiseForm_def)
  have st: "map id' (recurringIncomes orphanState) = [5]"
    by (simp add: orphanState_def bonus_def)
  have h4: "editingType (EditingIncome salary) = income \<longrightarrow>
      (\<forall>t \<in> set (recurringIncomes orphanState). id' t \<noteq> editingId (EditingIncome salary))"
    by (simp add: orphanState_def bonus_def salary_def)
  have h5: "editingType (EditingIncome salary) = expense \<longrightarrow>
      (\<forall>t \<in> set (recurringExpenses orphanState). id' t \<noteq> editingId (EditingIncome salary))"
    by simp
  have k: "map_of (monthlyData orphanState) ''2024-02'' = Some march"
    "map_of (monthlyData orphanState) ''2024-03'' = Some march"
    "map_of (monthlyData orphanState) ''2024-04'' = Some april"
    by (simp_all add: orphanState_def)
  have p: "''2024-02'' < selectedMonth orphanState" "selectedMonth orphanState \<le> ''2024-03''"
    "selectedMonth orphanState \<le> ''2024-04''"
    by (simp_all add: orphanState_def editingState_def demoState_def)
  have r: "map recurringId (realIncome march) = [Some 7]"
    "map recurringId (realIncome april) = [Some 5]"
    by (simp_all add: march_def april_def salary_def bonus_def)
  have r': "0 < length (realIncome march)" "recurringId (realIncome march ! 0) = Some 7"
    "\<forall>i \<in> set (realIncome april). recurringId i \<noteq> Some 7"
    by (simp_all add: march_def april_def salary_def bonus_def)
  note T = update_without_template[OF edit_examples(1,2,4) h4 h5, of 0 demoIds]
  note M = T[THEN conjunct2, THEN conjunct2, THEN conjunct2, THEN conjunct2, THEN conjunct2,
      THEN conjunct2, rule_format]
  have c1: "recurringIncomes (handleRecurringFormSubmit 0 demoIds raiseForm orphanState) =
     recurringIncomes orphanState"
    by (rule T[THEN conjunct1])
  have c2: "recurringExpenses (handleRecurringFormSubmit 0 demoIds raiseForm orphanState) =
     recurringExpenses orphanState"
    by (rule T[THEN conjunct2, THEN conjunct1])
  have c3: "editingRecurringTransaction (handleRecurringFormSubmit 0 demoIds raiseForm orphanState) =
     None"
    by (rule T[THEN conjunct2, THEN conjunct2, THEN conjunct2, THEN conjunct2, THEN conjunct1])
  have c4: "map_of (monthlyData (handleRecurringFormSubmit 0 demoIds raiseForm orphanState)) ''2024-02'' =
     Some march"
    using M[OF k(1)] p(1) by auto
  have c5: "map_of (monthlyData (handleRecurringFormSubmit 0 demoIds raiseForm orphanState)) ''2024-04'' =
     Some april"
    using M[OF k(3)] p(3) e(1,2) r'(3) by auto
  have c6: "\<exists>m'. map_of (monthlyData (handleRecurringFormSubmit 0 demoIds raiseForm orphanState)) ''2024-03'' =
           Some m' \<and>
      plannedExpenses m' = plannedExpenses march \<and> realExpenses m' = realExpenses march \<and>
      length (realIncome m') = length (realIncome march) \<and>
      realIncome m' ! 0 = (realIncome march ! 0)\<lparr>description := ''Pay'', amount := 2600\<rparr>"
    using M[OF k(2)] p(2) e r'(1,2) by auto
  from edit_examples(1,2,4) e(1,2) st k p r c1 c2 c3 c4 c5 c6 show ?thesis
    by (intro conjI)
qed

section \<open>Deleting a category\<close>

lemma list_ex_months:
  "list_ex (\<lambda>data. list_ex P (f data)) (map snd md) \<longleftrightarrow>
     (\<exists>(k, m) \<in> set md. \<exists>e \<in> set (f m). P e)"
  by (induction md) (auto simp: list_ex_iff)

text \<open>
  Claim C5. \<open>handleDeleteCategory\<close> refuses, with the alert that the category is in
  use, exactly when the name is the \<open>category\<close> of a planned expense of some
  materialized month, or the \<open>linkedCategory\<close> of a real expense of some materialized
  month, or the \<open>category\<close> of a recurring expense; the alert names exactly the usage
  classes that matched, each once. When none matches and the deletion is carried out,
  that is, the user confirms it, every category of that name is removed and everything
  else is unchanged. (When the user declines the confirmation no deletion takes place,
  and nothing changes.)
\<close>

theorem category_deletion_guard:
  "((\<exists>u. handleDeleteCategory confirmed c s = Inl (CategoryInUse c u)) \<longleftrightarrow>
      (\<exists>(k, m) \<in> set (monthlyData s). \<exists>e \<in> set (plannedExpenses m). category e = c) \<or>
      (\<exists>(k, m) \<in> set (monthlyData s). \<exists>e \<in> set (realExpenses m). linkedCategory e = c) \<or>
      (\<exists>e \<in> set (recurringExpenses s). category e = c)) \<and>
   (\<forall>a. handleDeleteCategory confirmed c s = Inl a \<longrightarrow>
      (\<exists>u. a = CategoryInUse c u \<and> distinct u \<and>
         (PlannedUsage \<in> set u \<longleftrightarrow>
            (\<exists>(k, m) \<in> set (monthlyData s). \<exists>e \<in> set (plannedExpenses m). category e = c)) \<and>
         (RealUsage \<in> set u \<longleftrightarrow>
            (\<exists>(k, m) \<in> set (monthlyData s). \<exists>e \<in> set (realExpenses m). linkedCategory e = c)) \<and>
         (RecurringUsage \<in> set u \<longleftrightarrow> (\<exists>e \<in> set (recurringExpenses s). category e = c)))) \<and>
   (\<not> ((\<exists>(k, m) \<in> set (monthlyData s). \<exists>e \<in> set (plannedExpenses m). category e = c) \<or>
        (\<exists>(k, m) \<in> set (monthlyData s). \<exists>e \<in> set (realExpenses m). linkedCategory e = c) \<or>
        (\<exists>e \<in> set (recurringExpenses s). category e = c)) \<longrightarrow>
      handleDeleteCategory True c s =
        Inr (s\<lparr>categories := filter (\<lambda>x. name x \<noteq> c) (categories s)\<rparr>) \<and>
      (\<forall>x \<in> set (filter (\<lambda>x. name x \<noteq> c) (categories s)). name x \<noteq> c) \<and>
      handleDeleteCategory False c s = Inr s)"
proof -
  define p where "p \<longleftrightarrow> (\<exists>(k, m) \<in> set (monthlyData s). \<exists>e \<in> set (plannedExpenses m). category e = c)"
  define r where "r \<longleftrightarrow> (\<exists>(k, m) \<in> set (monthlyData s). \<exists>e \<in> set (realExpenses m). linkedCategory e = c)"
  define q where "q \<longleftrightarrow> (\<exists>e \<in> set (recurringExpenses s). category e = c)"
  have eq: "handleDeleteCategory confirmed c s =
      (if p \<or> q \<or> r
       then Inl (CategoryInUse c ((if p then [PlannedUsage] else []) @
                     (if r then [RealUsage] else []) @ (if q then [RecurringUsage] else [])))
       else if confirmed then Inr (s\<lparr>categories := filter (\<lambda>x. name x \<noteq> c) (categories s)\<rparr>)
       else Inr s)" for confirmed
    unfolding p_def r_def q_def handleDeleteCategory_def Let_def list_ex_months
    by (simp only: list_ex_iff)
  show ?thesis
    unfolding p_def[symmetric] r_def[symmetric] q_def[symmetric] eq
    by (cases p; cases r; cases q) auto
qed

theorem category_deletion_guard_witness:
  "handleDeleteCategory True ''Housing'' demoState =
     Inl (CategoryInUse ''Housing'' [PlannedUsage, RecurringUsage]) \<and>
   handleDeleteCategory True ''Leisure'' demoState =
     Inr (demoState\<lparr>categories := [\<lparr>name = ''Housing'', color = ''#ef4444''\<rparr>]\<rparr>)"
proof -
  have u: "\<not> ((\<exists>(k, m) \<in> set (monthlyData demoState). \<exists>e \<in> set (plannedExpenses m). category e = ''Leisure'') \<or>
        (\<exists>(k, m) \<in> set (monthlyData demoState). \<exists>e \<in> set (realExpenses m). linkedCategory e = ''Leisure'') \<or>
        (\<exists>e \<in> set (recurringExpenses demoState). category e = ''Leisure''))"
    by (simp add: demoState_def march_def rent_def)
  have f: "filter (\<lambda>x. name x \<noteq> ''Leisure'') (categories demoState) =
      [\<lparr>name = ''Housing'', color = ''#ef4444''\<rparr>]"
    by (simp add: demoState_def)
  have c2: "handleDeleteCategory True ''Leisure'' demoState =
     Inr (demoState\<lparr>categories := [\<lparr>name = ''Housing'', color = ''#ef4444''\<rparr>]\<rparr>)"
    using category_deletion_guard[of True "''Leisure''" demoState, THEN conjunct2, THEN conjunct2] u f
    by simp
  have c1: "handleDeleteCategory True ''Housing'' demoState =
     Inl (CategoryInUse ''Housing'' [PlannedUsage, RecurringUsage])"
    by (simp add: handleDeleteCategory_def demoState_def march_def salary_def rent_def)
  from c1 c2 show ?thesis by (intro conjI)
qed

section \<open>Adding a category, and its colour\<close>

lemma addCategory_eq:
  "handleAddCategory rt input s =
     (if trim rt input = [] \<or>
         (\<exists>c \<in> set (categories s). toLowerCase rt (name c) = toLowerCase rt (trim rt input))
      then Inl CategoryNameInvalidOrExists
      else Inr (s\<lparr>categories :=
                   sortCategories rt
                     (categories s @ [\<lparr>name = trim rt input, color = ''#94a3b8''\<rparr>])\<rparr>))"
  by (simp add: handleAddCategory_def Let_def list_ex_iff)

lemma mset_sortCategories: "mset (sortCategories rt cs) = mset cs"
  by (simp add: sortCategories_def)

lemma sorted_sortCategories:
  "Sorting_Algorithms.sorted (key name (localeCompare rt)) (sortCategories rt cs)"
  by (simp add: sortCategories_def)

text \<open>
  Claim C8, amended. \<open>handleAddCategory\<close> trims the proposed name. It refuses, with
  one alert for both causes and without touching the registry, exactly when the trimmed
  name is empty or equals, after \<open>toLowerCase\<close> on both sides, the name of an existing
  category. Otherwise it changes nothing but the registry, which then holds the old
  categories and the new one, sorted by name under \<open>localeCompare\<close>.
\<close>

theorem category_addition:
  "(handleAddCategory rt input s = Inl CategoryNameInvalidOrExists \<longleftrightarrow>
      trim rt input = [] \<or>
      (\<exists>c \<in> set (categories s). toLowerCase rt (name c) = toLowerCase rt (trim rt input))) \<and>
   (\<forall>a. handleAddCategory rt input s = Inl a \<longrightarrow> a = CategoryNameInvalidOrExists) \<and>
   (\<forall>s'. handleAddCategory rt input s = Inr s' \<longrightarrow>
      s' = s\<lparr>categories := categories s'\<rparr> \<and>
      mset (categories s') =
        add_mset \<lparr>name = trim rt input, color = ''#94a3b8''\<rparr> (mset (categories s)) \<and>
      Sorting_Algorithms.sorted (key name (localeCompare rt)) (categories s'))"
  by (auto simp: addCategory_eq mset_sortCategories sorted_sortCategories)

text \<open>
  The claim as stated, that adding fails if and only if an existing name matches, fails
  for a name of blanks: no category matches it, and it is refused.
\<close>

theorem category_addition_counterexample:
  "trim demoRuntime ''   '' = [] \<and>
   map (toLowerCase demoRuntime \<circ> name) (categories demoState) = [''housing'', ''leisure''] \<and>
   toLowerCase demoRuntime ''   '' = ''   '' \<and>
   handleAddCategory demoRuntime ''   '' demoState = Inl CategoryNameInvalidOrExists"
  by (simp add: handleAddCategory_def demoRuntime_def asciiTrim_def asciiLower_def demoState_def)

theorem category_addition_witness:
  "handleAddCategory demoRuntime '' housing '' demoState = Inl CategoryNameInvalidOrExists \<and>
   handleAddCategory demoRuntime '' Food '' demoState =
     Inr (demoState\<lparr>categories :=
            [\<lparr>name = ''Food'', color = ''#94a3b8''\<rparr>, \<lparr>name = ''Housing'', color = ''#ef4444''\<rparr>,
             \<lparr>name = ''Leisure'', color = ''#ec4899''\<rparr>]\<rparr>) \<and>
   Sorting_Algorithms.sorted (key name (localeCompare demoRuntime))
     [\<lparr>name = ''Food'', color = ''#94a3b8''\<rparr>, \<lparr>name = ''Housing'', color = ''#ef4444''\<rparr>,
      \<lparr>name = ''Leisure'', color = ''#ec4899''\<rparr>]"
proof -
  have t: "trim demoRuntime '' housing '' = ''housing''" "trim demoRuntime '' Food '' = ''Food''"
    by (simp_all add: demoRuntime_def asciiTrim_def)
  have l: "map (toLowerCase demoRuntime \<circ> name) (categories demoState) = [''housing'', ''leisure'']"
    "toLowerCase demoRuntime ''housing'' = ''housing''" "toLowerCase demoRuntime ''Food'' = ''food''"
    by (simp_all add: demoRuntime_def asciiLower_def demoState_def)
  have d: "\<exists>c \<in> set (categories demoState).
      toLowerCase demoRuntime (name c) = toLowerCase demoRuntime (trim demoRuntime '' housing '')"
    using l by (simp add: t demoState_def)
  have c1: "handleAddCategory demoRuntime '' housing '' demoState = Inl CategoryNameInvalidOrExists"
    using category_addition[of demoRuntime "'' housing ''" demoState, THEN conjunct1] d by blast
  have c2: "handleAddCategory demoRuntime '' Food '' demoState =
     Inr (demoState\<lparr>categories :=
            [\<lparr>name = ''Food'', color = ''#94a3b8''\<rparr>, \<lparr>name = ''Housing'', color = ''#ef4444''\<rparr>,
             \<lparr>name = ''Leisure'', color = ''#ec4899''\<rparr>]\<rparr>)"
    by (simp add: handleAddCategory_def sortCategories_def demoRuntime_def asciiTrim_def
        asciiLower_def demoState_def)
  have c3: "Sorting_Algorithms.sorted (key name (localeCompare demoRuntime))
     [\<lparr>name = ''Food'', color = ''#94a3b8''\<rparr>, \<lparr>name = ''Housing'', color = ''#ef4444''\<rparr>,
      \<lparr>name = ''Leisure'', color = ''#ec4899''\<rparr>]"
    using category_addition[of demoRuntime "'' Food ''" demoState, THEN conjunct2, THEN conjunct2,
        rule_format, OF c2] by simp
  from c1 c2 c3 show ?thesis by (intro conjI)
qed

lemma colorChange_eq:
  "categories (handleColorChange c col s) =
     (if c = [] then categories s
      else updateAtFound (\<lambda>x. name x = c) (\<lambda>x. x\<lparr>color := col\<rparr>) (categories s))"
  by (simp add: handleColorChange_def)

text \<open>
  Claim C10. A category that \<open>handleAddCategory\<close> creates has the colour \<open>#94a3b8\<close>:
  the handler takes a name and no colour. Afterwards only the colour input's \<open>change\<close>
  listener changes a colour, and it changes that of the first category with the given
  name: submitting the recurring form, deleting a recurring template and navigating
  leave the registry as it is, and deleting a category only removes entries.
\<close>

theorem category_color_default:
  "(\<forall>s'. handleAddCategory rt input s = Inr s' \<longrightarrow>
      mset (categories s') =
        add_mset \<lparr>name = trim rt input, color = ''#94a3b8''\<rparr> (mset (categories s))) \<and>
   categories (handleRecurringFormSubmit now newId form t) = categories t \<and>
   categories (handleDeleteRecurring ident type t) = categories t \<and>
   categories (handleMonthNavigation k ids t) = categories t \<and>
   (\<forall>t'. handleDeleteCategory confirmed c t = Inr t' \<longrightarrow>
      categories t' = categories t \<or>
      categories t' = filter (\<lambda>x. name x \<noteq> c) (categories t)) \<and>
   length (categories (handleColorChange c col s)) = length (categories s) \<and>
   (\<forall>j < length (categories s).
      categories (handleColorChange c col s) ! j =
        (if c \<noteq> [] \<and> name (categories s ! j) = c \<and> (\<forall>l<j. name (categories s ! l) \<noteq> c)
         then (categories s ! j)\<lparr>color := col\<rparr>
         else categories s ! j))"
proof (intro conjI)
  show "\<forall>s'. handleAddCategory rt input s = Inr s' \<longrightarrow>
      mset (categories s') =
        add_mset \<lparr>name = trim rt input, color = ''#94a3b8''\<rparr> (mset (categories s))"
    by (auto simp: addCategory_eq mset_sortCategories)
  show "categories (handleRecurringFormSubmit now newId form t) = categories t"
    by (simp add: handleRecurringFormSubmit_def updateLogic_def addLogic_def Let_def
        split: option.splits)
  show "categories (handleDeleteRecurring ident type t) = categories t"
    by (simp add: handleDeleteRecurring_def Let_def)
  show "categories (handleMonthNavigation k ids t) = categories t"
    by (simp add: handleMonthNavigation_def Let_def)
  show "\<forall>t'. handleDeleteCategory confirmed c t = Inr t' \<longrightarrow>
      categories t' = categories t \<or>
      categories t' = filter (\<lambda>x. name x \<noteq> c) (categories t)"
    by (auto simp: handleDeleteCategory_def Let_def split: if_splits)
  show "length (categories (handleColorChange c col s)) = length (categories s)"
    by (simp add: colorChange_eq length_updateAtFound)
  show "\<forall>j < length (categories s).
      categories (handleColorChange c col s) ! j =
        (if c \<noteq> [] \<and> name (categories s ! j) = c \<and> (\<forall>l<j. name (categories s ! l) \<noteq> c)
         then (categories s ! j)\<lparr>color := col\<rparr>
         else categories s ! j)"
    by (simp add: colorChange_eq nth_updateAtFound)
qed

theorem category_color_default_witness:
  "handleAddCategory demoRuntime ''Food'' demoState =
     Inr (demoState\<lparr>categories :=
            [\<lparr>name = ''Food'', color = ''#94a3b8''\<rparr>, \<lparr>name = ''Housing'', color = ''#ef4444''\<rparr>,
             \<lparr>name = ''Leisure'', color = ''#ec4899''\<rparr>]\<rparr>) \<and>
   mset [\<lparr>name = ''Food'', color = ''#94a3b8''\<rparr>, \<lparr>name = ''Housing'', color = ''#ef4444''\<rparr>,
         \<lparr>name = ''Leisure'', color = ''#ec4899''\<rparr>] =
     add_mset \<lparr>name = trim demoRuntime ''Food'', color = ''#94a3b8''\<rparr> (mset (categories demoState)) \<and>
   categories (handleColorChange ''Leisure'' ''#000000'' demoState) ! 1 =
     \<lparr>name = ''Leisure'', color = ''#000000''\<rparr>"
proof -
  have c1: "handleAddCategory demoRuntime ''Food'' demoState =
     Inr (demoState\<lparr>categories :=
            [\<lparr>name = ''Food'', color = ''#94a3b8''\<rparr>, \<lparr>name = ''Housing'', color = ''#ef4444''\<rparr>,
             \<lparr>name = ''Leisure'', color = ''#ec4899''\<rparr>]\<rparr>)"
    by (simp add: handleAddCategory_def sortCategories_def demoRuntime_def asciiTrim_def
        asciiLower_def demoState_def)
  note T = category_color_default[of demoRuntime "''Food''" demoState _ _ _ _ _ _ _ _ _ "''Leisure''" "''#000000''"]
  have c2: "mset [\<lparr>name = ''Food'', color = ''#94a3b8''\<rparr>, \<lparr>name = ''Housing'', color = ''#ef4444''\<rparr>,
         \<lparr>name = ''Leisure'', color = ''#ec4899''\<rparr>] =
     add_mset \<lparr>name = trim demoRuntime ''Food'', color = ''#94a3b8''\<rparr> (mset (categories demoState))"
    using T[THEN conjunct1, rule_format, OF c1] by simp
  have j: "1 < length (categories demoState)" "name (categories demoState ! 1) = ''Leisure''"
    "name (categories demoState ! 0) \<noteq> ''Leisure''"
    "categories demoState ! 1 = \<lparr>name = ''Leisure'', color = ''#ec4899''\<rparr>"
    by (simp_all add: demoState_def)
  have c3: "categories (handleColorChange ''Leisure'' ''#000000'' demoState) ! 1 =
     \<lparr>name = ''Leisure'', color = ''#000000''\<rparr>"
    using T[THEN conjunct2, THEN conjunct2, THEN conjunct2, THEN conjunct2, THEN conjunct2,
        THEN conjunct2, rule_format, OF j(1)] j(2,3,4) by simp
  from c1 c2 c3 show ?thesis by (intro conjI)
qed

end
